theory Spec2Isabelle
  imports Main "HOL-Library.Mapping" "HOL-Library.Char_ord" "HOL-Library.List_Lexorder"
    "HOL-Library.Sublist"
begin

section \<open>Go values shared by the task plugins\<close>

text \<open>
  A Go pointer \<open>*string\<close> is a \<open>string option\<close> (\<open>None\<close> is nil), a
  \<open>map[string]string\<close> is a finite mapping, and an \<open>error\<close> result is an
  \<open>error option\<close> (\<open>None\<close> is the nil error). Dereferencing a nil pointer
  makes the Go runtime panic; a function that can do so returns an \<open>outcome\<close>.
\<close>

type_synonym Tags = "(string, string) mapping"

text \<open>
  The error values the files under verification build or pass on. \<open>AwsErr code msg\<close>
  is a value implementing \<open>awserr.Error\<close> (the only kind for which the type assertion
  in \<open>find\<close> succeeds); \<open>OtherErr\<close> is any other error of a collaborator. The
  remaining constructors are the \<open>fmt.Errorf\<close> calls of sshkey.go, one per format
  string, carrying the formatted argument, and \<open>fi.CannotChangeField\<close>.
\<close>

datatype error =
    AwsErr string string
  | OtherErr string
  | ErrorListingSSHKeys error
  | UnableToFindSSHKey string
  | FoundMultipleSSHKeys string
  | ErrorReadingSSHPublicKey error
  | ErrorComputingKeyFingerprint error
  | CannotChangeField string
  | ErrorRenderingSSHKeyPublicKey error
  | ErrorCreatingSSHKey error
  | ErrorRenderingPublicKey error

datatype 'a outcome = Panics | Returns 'a

text \<open>
  \<open>fi.Resource\<close> is an interface whose content is read through \<open>Open\<close>, which may
  fail. The package \<open>fi\<close> is not among the sources; a resource is modelled by what
  reading it yields, and \<open>fi.ResourceAsString\<close>, \<open>fi.ResourceAsBytes\<close> return that
  as Go's pair of a value and an error.
\<close>

datatype Resource = Resource (Open: "error + string")

definition NewStringResource :: "string \<Rightarrow> Resource" where
  "NewStringResource s = Resource (Inr s)"

definition ResourceAsString :: "Resource \<Rightarrow> string \<times> error option" where
  "ResourceAsString r = (case Open r of Inl err \<Rightarrow> ('''', Some err) | Inr s \<Rightarrow> (s, None))"

definition ResourceAsBytes :: "Resource \<Rightarrow> string \<times> error option" where
  "ResourceAsBytes r = (case Open r of Inl err \<Rightarrow> ('''', Some err) | Inr s \<Rightarrow> (s, None))"

text \<open>\<open>fi.ValueOf\<close>: the pointed-to value, or the zero value of the type for nil.\<close>

definition ValueOf :: "string option \<Rightarrow> string" where
  "ValueOf p = (case p of None \<Rightarrow> '''' | Some v \<Rightarrow> v)"

definition PtrTo :: "string \<Rightarrow> string option" where
  "PtrTo v = Some v"

text \<open>\<open>strings.TrimRight(s, cutset)\<close>: \<open>s\<close> without its trailing bytes from \<open>cutset\<close>.\<close>

definition TrimRight :: "string \<Rightarrow> string \<Rightarrow> string" where
  "TrimRight s cutset = rev (dropWhile (\<lambda>c. c \<in> set cutset) (rev s))"

text \<open>
  \<open>strings.Replace(s, ":", "", -1)\<close>, the only use of \<open>strings.Replace\<close> in sshkey.go:
  every occurrence of the one-byte string \<open>":"\<close> is replaced by the empty string.
\<close>

definition Replace_colon :: "string \<Rightarrow> string" where
  "Replace_colon s = filter (\<lambda>c. c \<noteq> CHR '':'') s"

section \<open>The SSHKey task (upup/pkg/fi/cloudup/awstasks/sshkey.go)\<close>

text \<open>\<open>fi.Lifecycle\<close> is a string type; its zero value is the empty string.\<close>

type_synonym Lifecycle = string

record SSHKey =
  ID :: "string option"
  Name :: "string option"
  Lifecycle :: Lifecycle
  Shared :: bool
  PublicKey :: "Resource option"
  KeyFingerprint :: "string option"
  Tags :: Tags

subsection \<open>The EC2 client\<close>

text \<open>
  The structs of the AWS SDK that sshkey.go reads and writes, with the fields it uses
  (prefixed, since several share their names with the fields of \<open>SSHKey\<close>); the
  key pairs of an answer are never nil pointers. The client
  is a collaborator: its answers are functions of the request, and the mutating calls a
  function issues are recorded in the order they are made.
\<close>

type_synonym ec2_Tag = "string option \<times> string option"

record KeyPairInfo =
  kp_KeyPairId :: "string option"
  kp_KeyName :: "string option"
  kp_KeyFingerprint :: "string option"
  kp_KeyType :: "string option"
  kp_Tags :: "ec2_Tag list"

record DescribeKeyPairsOutput =
  KeyPairs :: "KeyPairInfo list"

record TagSpecification =
  ts_ResourceType :: "string option"
  ts_Tags :: "ec2_Tag list"

record ImportKeyPairInput =
  in_KeyName :: "string option"
  in_TagSpecifications :: "TagSpecification list"
  in_PublicKeyMaterial :: "string option"

record ImportKeyPairOutput =
  out_KeyFingerprint :: "string option"
  out_KeyPairId :: "string option"

record AWSCloud =
  DescribeKeyPairs :: "string option list \<Rightarrow> DescribeKeyPairsOutput option \<times> error option"
  ImportKeyPair :: "ImportKeyPairInput \<Rightarrow> ImportKeyPairOutput option \<times> error option"

datatype aws_call =
    ImportKeyPairCall ImportKeyPairInput
  | AddAWSTagsCall string Tags

record AWSAPITarget =
  Cloud :: AWSCloud
  AddAWSTags :: "string \<Rightarrow> Tags \<Rightarrow> error option"

text \<open>The SDK's constants \<open>ec2.KeyTypeEd25519\<close> and \<open>ec2.ResourceTypeKeyPair\<close>.\<close>

definition KeyTypeEd25519 :: string where
  "KeyTypeEd25519 = ''ed25519''"

definition ResourceTypeKeyPair :: string where
  "ResourceTypeKeyPair = ''key-pair''"

subsection \<open>Identity and lookup\<close>

definition CompareWithID :: "SSHKey \<Rightarrow> string option" where
  "CompareWithID e = Name e"

definition IsExistingKey :: "SSHKey \<Rightarrow> bool" where
  "IsExistingKey e = (PublicKey e = None)"

definition NoSSHKey :: "SSHKey \<Rightarrow> bool" where
  "NoSSHKey e = (ID e = None \<and> Name e = None \<and> PublicKey e = None \<and> KeyFingerprint e = None)"

text \<open>
  The error of \<open>DescribeKeyPairs\<close> after the type assertion of lines 67 to 71: an
  \<open>awserr.Error\<close> whose code is \<open>InvalidKeyPair.NotFound\<close> becomes nil.
\<close>

definition clear_not_found :: "error option \<Rightarrow> error option" where
  "clear_not_found err =
     (case err of
        Some (AwsErr code msg) \<Rightarrow> if code = ''InvalidKeyPair.NotFound'' then None else err
      | _ \<Rightarrow> err)"

text \<open>
  Lines 87 to 114: the actual task built from the one key pair \<open>k\<close> the backend
  returned. The fingerprint of an Ed25519 key is rewritten to the form that
  \<open>ssh-keygen -lf\<close> prints.
\<close>

definition actual_of :: "(ec2_Tag list \<Rightarrow> Tags) \<Rightarrow> SSHKey \<Rightarrow> KeyPairInfo \<Rightarrow> SSHKey" where
  "actual_of mapEC2TagsToMap e k =
     (let actual0 = \<lparr>ID = kp_KeyPairId k, Name = kp_KeyName k, Lifecycle = '''',
                      Shared = Shared e, PublicKey = None,
                      KeyFingerprint = kp_KeyFingerprint k,
                      Tags = mapEC2TagsToMap (kp_Tags k)\<rparr>;
          actual1 = (if ValueOf (kp_KeyType k) = KeyTypeEd25519
                     then actual0\<lparr>KeyFingerprint :=
                            PtrTo (''SHA256:'' @ TrimRight (ValueOf (kp_KeyFingerprint k)) ''='')\<rparr>
                     else actual0);
          actual2 = (if ValueOf (KeyFingerprint actual1) = ValueOf (KeyFingerprint e)
                     then actual1\<lparr>PublicKey := PublicKey e\<rparr>
                     else actual1);
          actual3 = actual2\<lparr>Lifecycle := Lifecycle e\<rparr>
      in if Shared actual3 then actual3\<lparr>Tags := Tags e\<rparr> else actual3)"

text \<open>
  \<open>find\<close> (here \<open>find_SSHKey\<close>; \<open>Find\<close> calls it with the cloud of its
  context) returns the actual task, the error, and the expected task as the call leaves it (\<open>e.ID\<close> and, for an existing key, \<open>e.KeyFingerprint\<close> are assigned on
  success). \<open>mapEC2TagsToMap\<close> is a helper of the package that is not among the
  sources and is taken as a parameter. \<open>*e.Name\<close> panics for a nil \<open>Name\<close>; the
  \<open>&&\<close> of lines 77 and 117 evaluates it only for an existing key.
\<close>

definition find_SSHKey ::
  "(ec2_Tag list \<Rightarrow> Tags) \<Rightarrow> AWSCloud \<Rightarrow> SSHKey \<Rightarrow> ((SSHKey option \<times> error option) \<times> SSHKey) outcome" where
  "find_SSHKey mapEC2TagsToMap cloud e =
     (let (response, err0) = DescribeKeyPairs cloud [Name e];
          err = clear_not_found err0
      in case err of
           Some x \<Rightarrow> Returns ((None, Some (ErrorListingSSHKeys x)), e)
         | None \<Rightarrow>
            (case (case response of None \<Rightarrow> [] | Some r \<Rightarrow> KeyPairs r) of
               [] \<Rightarrow>
                 (if IsExistingKey e
                  then (case Name e of
                          None \<Rightarrow> Panics
                        | Some n \<Rightarrow>
                            if n \<noteq> '''' then Returns ((None, Some (UnableToFindSSHKey n)), e)
                            else Returns ((None, None), e))
                  else Returns ((None, None), e))
             | [k] \<Rightarrow>
                 (let actual = actual_of mapEC2TagsToMap e k;
                      e1 = e\<lparr>ID := ID actual\<rparr>
                  in if IsExistingKey e1
                     then (case Name e1 of
                             None \<Rightarrow> Panics
                           | Some n \<Rightarrow>
                               if n \<noteq> ''''
                               then Returns ((Some actual, None),
                                             e1\<lparr>KeyFingerprint := KeyFingerprint actual\<rparr>)
                               else Returns ((Some actual, None), e1))
                     else Returns ((Some actual, None), e1))
             | k # k' # ks \<Rightarrow>
                 (case Name e of
                    None \<Rightarrow> Panics
                  | Some n \<Rightarrow> Returns ((None, Some (FoundMultipleSSHKeys n)), e))))"

subsection \<open>Normalize and CheckChanges\<close>

text \<open>
  \<open>pki.ComputeAWSKeyFingerprint\<close> is not among the sources and is a parameter; it
  returns Go's pair of a fingerprint and an error.
\<close>

definition Normalize :: "(string \<Rightarrow> string \<times> error option) \<Rightarrow> SSHKey \<Rightarrow> error option \<times> SSHKey" where
  "Normalize ComputeAWSKeyFingerprint e =
     (if KeyFingerprint e = None \<and> PublicKey e \<noteq> None
      then (case PublicKey e of
              None \<Rightarrow> (None, e)
            | Some r \<Rightarrow>
               (let (publicKey, err) = ResourceAsString r
                in case err of
                     Some x \<Rightarrow> (Some (ErrorReadingSSHPublicKey x), e)
                   | None \<Rightarrow>
                      (let (keyFingerprint, err') = ComputeAWSKeyFingerprint publicKey
                       in case err' of
                            Some x \<Rightarrow> (Some (ErrorComputingKeyFingerprint x), e)
                          | None \<Rightarrow> (None, e\<lparr>KeyFingerprint := Some keyFingerprint\<rparr>))))
      else (None, e))"

text \<open>
  \<open>CheckChanges(a, e, changes)\<close>: \<open>a\<close> is nil when the resource does not exist;
  \<open>e\<close> and \<open>changes\<close> are allocated by the caller.
\<close>

definition CheckChanges :: "SSHKey option \<Rightarrow> SSHKey \<Rightarrow> SSHKey \<Rightarrow> error option" where
  "CheckChanges a e changes =
     (if a \<noteq> None
      then (if Name changes \<noteq> None then Some (CannotChangeField ''Name'') else None)
      else None)"

subsection \<open>Rendering against the AWS API\<close>

text \<open>
  \<open>createKeypair\<close> returns the error, the expected task as the call leaves it and the
  mutating calls it made. Line 155 formats \<open>*e.Name\<close> for the log, which panics for a
  nil \<open>Name\<close>; a nil response with a nil error would panic at line 175.
  \<open>awsup.EC2TagSpecification\<close> is not among the sources and is a parameter.
\<close>

definition createKeypair ::
  "(string \<Rightarrow> Tags \<Rightarrow> TagSpecification list) \<Rightarrow> AWSCloud \<Rightarrow> SSHKey
     \<Rightarrow> (error option \<times> SSHKey \<times> aws_call list) outcome" where
  "createKeypair EC2TagSpecification cloud e =
     (case Name e of
        None \<Rightarrow> Panics
      | Some n \<Rightarrow>
         (let request0 = \<lparr>in_KeyName = Name e,
                           in_TagSpecifications = EC2TagSpecification ResourceTypeKeyPair (Tags e),
                           in_PublicKeyMaterial = None\<rparr>;
              rendered = (case PublicKey e of
                            None \<Rightarrow> Inr request0
                          | Some r \<Rightarrow>
                             (let (d, err) = ResourceAsBytes r
                              in case err of
                                   Some x \<Rightarrow> Inl (ErrorRenderingSSHKeyPublicKey x)
                                 | None \<Rightarrow> Inr (request0\<lparr>in_PublicKeyMaterial := Some d\<rparr>)))
          in case rendered of
               Inl x \<Rightarrow> Returns (Some x, e, [])
             | Inr request \<Rightarrow>
                (let (response, err) = ImportKeyPair cloud request
                 in case err of
                      Some x \<Rightarrow> Returns (Some (ErrorCreatingSSHKey x), e, [ImportKeyPairCall request])
                    | None \<Rightarrow>
                       (case response of
                          None \<Rightarrow> Panics
                        | Some r \<Rightarrow>
                            Returns (None,
                                     e\<lparr>KeyFingerprint := out_KeyFingerprint r, ID := out_KeyPairId r\<rparr>,
                                     [ImportKeyPairCall request])))))"

text \<open>\<open>RenderAWS(t, a, e, changes)\<close>; \<open>*e.ID\<close> panics for a nil \<open>ID\<close>.\<close>

definition RenderAWS ::
  "(string \<Rightarrow> Tags \<Rightarrow> TagSpecification list) \<Rightarrow> AWSAPITarget \<Rightarrow> SSHKey option \<Rightarrow> SSHKey \<Rightarrow> SSHKey
     \<Rightarrow> (error option \<times> SSHKey \<times> aws_call list) outcome" where
  "RenderAWS EC2TagSpecification t a e changes =
     (if a = None then createKeypair EC2TagSpecification (Cloud t) e
      else if \<not> Shared e
      then (case ID e of
              None \<Rightarrow> Panics
            | Some i \<Rightarrow> Returns (AddAWSTags t i (Tags e), e, [AddAWSTagsCall i (Tags e)]))
      else Returns (None, e, []))"

subsection \<open>Rendering to Terraform\<close>

text \<open>
  \<open>terraformWriter.Literal\<close> values, by the constructor function that builds them:
  a literal string, a reference to a property of a resource block, and the literals
  the target itself hands out (for a file it has added).
\<close>

datatype Literal =
    LiteralFromStringValue string
  | LiteralProperty string string string
  | LiteralFunctionExpression string "string list"

record terraformSSHKey =
  tf_Name :: "string option"
  tf_PublicKey :: "Literal option"
  tf_Tags :: Tags

text \<open>
  The Terraform target is a collaborator: what \<open>AddFileResource\<close> and
  \<open>RenderResource\<close> return is a function of their arguments, and the calls made on
  the target are recorded in order. The resource blocks of the generated document are
  the \<open>RenderResource\<close> calls.
\<close>

record TerraformTarget =
  AddFileResource :: "string \<Rightarrow> string \<Rightarrow> string \<Rightarrow> Resource option \<Rightarrow> bool \<Rightarrow> Literal option \<times> error option"
  RenderResource :: "string \<Rightarrow> string \<Rightarrow> terraformSSHKey \<Rightarrow> error option"

datatype tf_call =
    AddFileResourceCall string string string "Resource option" bool
  | RenderResourceCall string string terraformSSHKey

definition RenderTerraform ::
  "TerraformTarget \<Rightarrow> SSHKey option \<Rightarrow> SSHKey \<Rightarrow> SSHKey \<Rightarrow> (error option \<times> tf_call list) outcome" where
  "RenderTerraform t a e changes =
     (if IsExistingKey e then Returns (None, [])
      else (case Name e of
              None \<Rightarrow> Panics
            | Some n \<Rightarrow>
               (let tfName = Replace_colon n;
                    (publicKey, err) = AddFileResource t ''aws_key_pair'' tfName ''public_key'' (PublicKey e) False;
                    added = AddFileResourceCall ''aws_key_pair'' tfName ''public_key'' (PublicKey e) False
                in case err of
                     Some x \<Rightarrow> Returns (Some (ErrorRenderingPublicKey x), [added])
                   | None \<Rightarrow>
                      (let tf = \<lparr>tf_Name = Name e, tf_PublicKey = publicKey, tf_Tags = Tags e\<rparr>
                       in Returns (RenderResource t ''aws_key_pair'' tfName tf,
                                   [added, RenderResourceCall ''aws_key_pair'' tfName tf])))))"

definition TerraformLink :: "SSHKey \<Rightarrow> Literal option outcome" where
  "TerraformLink e =
     (if NoSSHKey e then Returns None
      else if IsExistingKey e
      then (case Name e of
              None \<Rightarrow> Panics
            | Some n \<Rightarrow> Returns (Some (LiteralFromStringValue n)))
      else (case Name e of
              None \<Rightarrow> Panics
            | Some n \<Rightarrow> Returns (Some (LiteralProperty ''aws_key_pair'' (Replace_colon n) ''id''))))"


section \<open>The logrotate model builder (nodeup model, logrotate.go)\<close>

text \<open>
  The distributions the builder tells apart are the two constants it compares
  \<open>b.Distribution\<close> with; every other distribution takes the default branches.
\<close>

datatype Distribution =
    DistributionContainerOS
  | DistributionFlatcar
  | DistributionOther string

text \<open>
  The part of \<open>NodeupModelContext\<close> that the builder reads. The cluster configuration
  is only handed to \<open>model.UseCiliumEtcd\<close>, which is not among the sources and is a
  parameter, as are \<open>Render\<close> of \<open>systemd.Manifest\<close> and \<open>InitDefaults\<close> of
  \<open>nodetasks.Service\<close>. A manifest is the sequence of its \<open>Set\<close> calls.
\<close>

record 'c NodeupModelContext =
  Distribution :: Distribution
  Cluster :: 'c

type_synonym Manifest = "(string \<times> string \<times> string) list"

definition Manifest_Set :: "Manifest \<Rightarrow> string \<Rightarrow> string \<Rightarrow> string \<Rightarrow> Manifest" where
  "Manifest_Set m sect key val = m @ [(sect, key, val)]"

record File =
  Path :: string
  Contents :: Resource
  Type :: string
  Mode :: "string option"

record Service =
  svc_Name :: string
  svc_Definition :: "string option"

datatype 's Task =
    PackageTask string
  | FileTask File
  | ServiceTask 's

text \<open>The constant \<open>nodetasks.FileType_File\<close>.\<close>

definition FileType_File :: string where
  "FileType_File = ''file''"

text \<open>
  Modelled from the spec: \<open>AddTask\<close> of \<open>fi.ModelBuilderContext\<close> is not among the
  sources; by section 6 a builder "appends zero or more tasks to the shared build
  context", so the context is the list of the tasks added so far.
\<close>

definition AddTask :: "'s Task list \<Rightarrow> 's Task \<Rightarrow> 's Task list" where
  "AddTask c task = c @ [task]"

text \<open>\<open>strings.Join(elems, sep)\<close>.\<close>

fun Join :: "string list \<Rightarrow> string \<Rightarrow> string" where
  "Join [] sep = []"
| "Join [x] sep = x"
| "Join (x # y # ys) sep = x @ sep @ Join (y # ys) sep"

record logRotateOptions =
  MaxSize :: string
  DateFormat :: string

definition addLogRotate ::
  "'c NodeupModelContext \<Rightarrow> 's Task list \<Rightarrow> string \<Rightarrow> string \<Rightarrow> logRotateOptions \<Rightarrow> 's Task list" where
  "addLogRotate b c name path options =
     (let options1 = (if MaxSize options = [] then options\<lparr>MaxSize := ''100M''\<rparr> else options);
          options2 = (if Distribution b = DistributionFlatcar
                      then options1\<lparr>DateFormat := ''-%Y%m%d-%s''\<rparr> else options1);
          lines0 = [path @ ''{'',
                    ''  rotate 5'',
                    ''  copytruncate'',
                    ''  missingok'',
                    ''  notifempty'',
                    ''  delaycompress'',
                    ''  maxsize '' @ MaxSize options2];
          lines1 = (if DateFormat options2 \<noteq> []
                    then lines0 @ [''  dateformat '' @ DateFormat options2] else lines0);
          lines2 = lines1 @ [''  daily'', ''  create 0644 root root'', ''}''];
          contents = Join lines2 ''\<newline>'' @ ''\<newline>''
      in AddTask c (FileTask \<lparr>Path = ''/etc/logrotate.d/'' @ name,
                               Contents = NewStringResource contents,
                               Type = FileType_File,
                               Mode = Some ''0644''\<rparr>))"

definition addLogrotateService ::
  "(Manifest \<Rightarrow> string) \<Rightarrow> (Service \<Rightarrow> 's) \<Rightarrow> 'c NodeupModelContext \<Rightarrow> 's Task list
     \<Rightarrow> error option \<times> 's Task list" where
  "addLogrotateService Render InitDefaults b c =
     (if Distribution b = DistributionFlatcar \<or> Distribution b = DistributionContainerOS
      then (None, c)
      else (let manifest0 = Manifest_Set [] ''Unit'' ''Description'' ''Rotate and Compress System Logs'';
                manifest = Manifest_Set manifest0 ''Service'' ''ExecStart''
                             ''/usr/sbin/logrotate /etc/logrotate.conf'';
                service = InitDefaults \<lparr>svc_Name = ''logrotate.service'',
                                         svc_Definition = Some (Render manifest)\<rparr>
            in (None, AddTask c (ServiceTask service))))"

definition Build ::
  "('c \<Rightarrow> bool) \<Rightarrow> (Manifest \<Rightarrow> string) \<Rightarrow> (Service \<Rightarrow> 's) \<Rightarrow> 'c NodeupModelContext \<Rightarrow> 's Task list
     \<Rightarrow> error option \<times> 's Task list" where
  "Build UseCiliumEtcd Render InitDefaults b c =
     (if Distribution b = DistributionContainerOS then (None, c)
      else
       (let none = \<lparr>MaxSize = [], DateFormat = []\<rparr>;
            c0 = (if Distribution b = DistributionFlatcar then c
                  else AddTask c (PackageTask ''logrotate''));
            c1 = addLogRotate b c0 ''docker'' ''/var/log/docker.log'' none;
            c2 = addLogRotate b c1 ''kube-addons'' ''/var/log/kube-addons.log'' none;
            c3 = addLogRotate b c2 ''kube-apiserver'' ''/var/log/kube-apiserver.log'' none;
            c4 = addLogRotate b c3 ''kube-controller-manager''
                   ''/var/log/kube-controller-manager.log'' none;
            c5 = addLogRotate b c4 ''kube-proxy'' ''/var/log/kube-proxy.log'' none;
            c6 = addLogRotate b c5 ''kube-scheduler'' ''/var/log/kube-scheduler.log'' none;
            c7 = addLogRotate b c6 ''kubelet'' ''/var/log/kubelet.log'' none;
            c8 = addLogRotate b c7 ''etcd'' ''/var/log/etcd.log'' none;
            c9 = addLogRotate b c8 ''etcd-events'' ''/var/log/etcd-events.log'' none;
            c10 = (if UseCiliumEtcd (Cluster b)
                   then addLogRotate b c9 ''etcd-cilium'' ''/var/log/etcd-cilium.log'' none
                   else c9);
            (err, c11) = addLogrotateService Render InitDefaults b c10
        in case err of
             Some x \<Rightarrow> (Some x, c11)
           | None \<Rightarrow>
              (let unit0 = Manifest_Set [] ''Unit'' ''Description'' ''Hourly Log Rotation'';
                   unit = Manifest_Set unit0 ''Timer'' ''OnCalendar'' ''hourly'';
                   service = InitDefaults \<lparr>svc_Name = ''logrotate.timer'',
                                            svc_Definition = Some (Render unit)\<rparr>
               in (None, AddTask c11 (ServiceTask service)))))"

section \<open>Vocabulary of the properties\<close>

text \<open>
  What the backend reports for the name of a task. The resource is absent when
  \<open>DescribeKeyPairs\<close> gives no key pair, with no error or with the provider's
  not-found error.
\<close>

definition is_not_found :: "error \<Rightarrow> bool" where
  "is_not_found x = (case x of AwsErr code msg \<Rightarrow> code = ''InvalidKeyPair.NotFound'' | _ \<Rightarrow> False)"

definition reports_absent :: "AWSCloud \<Rightarrow> SSHKey \<Rightarrow> bool" where
  "reports_absent cloud e =
     (let (response, err) = DescribeKeyPairs cloud [Name e]
      in (case err of None \<Rightarrow> True | Some x \<Rightarrow> is_not_found x)
         \<and> (case response of None \<Rightarrow> True | Some r \<Rightarrow> KeyPairs r = []))"

text \<open>
  The fingerprint of a stored key pair as lines 97 to 103 report it: for an Ed25519
  key the trailing \<open>=\<close> are trimmed and \<open>SHA256:\<close> is put in front.
\<close>

definition normalized_fingerprint :: "KeyPairInfo \<Rightarrow> string option" where
  "normalized_fingerprint k =
     (if ValueOf (kp_KeyType k) = KeyTypeEd25519
      then Some (''SHA256:'' @ TrimRight (ValueOf (kp_KeyFingerprint k)) ''='')
      else kp_KeyFingerprint k)"

text \<open>
  A task is converged with the key pair the backend stores when the key pair has the
  task's name, its normalized fingerprint is the expected one and, unless the key is
  shared, its tags are the expected ones.
\<close>

definition converged :: "(ec2_Tag list \<Rightarrow> Tags) \<Rightarrow> SSHKey \<Rightarrow> KeyPairInfo \<Rightarrow> bool" where
  "converged mapEC2TagsToMap e k =
     (kp_KeyName k = Name e \<and> normalized_fingerprint k = KeyFingerprint e
      \<and> (Shared e \<or> mapEC2TagsToMap (kp_Tags k) = Tags e))"

text \<open>
  Modelled from the spec: the change-set of section 3 (\<open>fi.BuildChanges\<close> is not
  among the sources), "produced by comparing the Find() result against the expected
  Task; fields that differ are set, fields that match are left at their zero/empty
  value".
\<close>

definition BuildChanges :: "SSHKey \<Rightarrow> SSHKey \<Rightarrow> SSHKey" where
  "BuildChanges a e =
     \<lparr>ID = (if ID a = ID e then None else ID e),
      Name = (if Name a = Name e then None else Name e),
      Lifecycle = (if Lifecycle a = Lifecycle e then [] else Lifecycle e),
      Shared = (if Shared a = Shared e then False else Shared e),
      PublicKey = (if PublicKey a = PublicKey e then None else PublicKey e),
      KeyFingerprint = (if KeyFingerprint a = KeyFingerprint e then None else KeyFingerprint e),
      Tags = (if Tags a = Tags e then Mapping.empty else Tags e)\<rparr>"

text \<open>The zero value of \<open>SSHKey\<close>: the change-set in which no field is set.\<close>

definition no_changes :: SSHKey where
  "no_changes = \<lparr>ID = None, Name = None, Lifecycle = [], Shared = False, PublicKey = None,
                  KeyFingerprint = None, Tags = Mapping.empty\<rparr>"

section \<open>Example tasks and backends\<close>

text \<open>Instances of the parameters, and the concrete inputs of the examples below.\<close>

definition example_mapEC2TagsToMap :: "ec2_Tag list \<Rightarrow> Tags" where
  "example_mapEC2TagsToMap tags =
     foldl (\<lambda>m (k, v). Mapping.update (ValueOf k) (ValueOf v) m) Mapping.empty tags"

definition example_EC2TagSpecification :: "string \<Rightarrow> Tags \<Rightarrow> TagSpecification list" where
  "example_EC2TagSpecification resourceType tags =
     (if Mapping.is_empty tags then []
      else [\<lparr>ts_ResourceType = Some resourceType,
             ts_Tags = map (\<lambda>k. (Some k, Mapping.lookup tags k)) (Mapping.ordered_keys tags)\<rparr>])"

definition cloud_returning :: "KeyPairInfo list \<Rightarrow> AWSCloud" where
  "cloud_returning ks =
     \<lparr>DescribeKeyPairs = (\<lambda>names. (Some \<lparr>KeyPairs = ks\<rparr>, None)),
      ImportKeyPair = (\<lambda>request.
        (Some \<lparr>out_KeyFingerprint = Some ''c4:a6:ed:9a:a8:89:b9:e2:c3:9c:d6:63:eb:9c:71:57'',
               out_KeyPairId = Some ''key-0a1b2c3d''\<rparr>, None))\<rparr>"

definition cloud_failing :: "error \<Rightarrow> AWSCloud" where
  "cloud_failing x =
     \<lparr>DescribeKeyPairs = (\<lambda>names. (None, Some x)),
      ImportKeyPair = (\<lambda>request. (None, Some x))\<rparr>"

definition new_key :: SSHKey where
  "new_key =
     \<lparr>ID = None, Name = Some ''kubernetes.minimal.example.com-c4:a6:ed'', Lifecycle = ''Sync'',
      Shared = False, PublicKey = Some (NewStringResource ''ssh-rsa AAAAB3NzaC1yc2E''),
      KeyFingerprint = Some ''c4:a6:ed:9a:a8:89:b9:e2:c3:9c:d6:63:eb:9c:71:57'',
      Tags = Mapping.empty\<rparr>"

definition existing_key :: SSHKey where
  "existing_key =
     \<lparr>ID = None, Name = Some ''my-existing-key'', Lifecycle = ''Sync'', Shared = True,
      PublicKey = None, KeyFingerprint = None, Tags = Mapping.empty\<rparr>"

definition stored_key :: KeyPairInfo where
  "stored_key =
     \<lparr>kp_KeyPairId = Some ''key-0a1b2c3d'',
      kp_KeyName = Some ''kubernetes.minimal.example.com-c4:a6:ed'',
      kp_KeyFingerprint = Some ''c4:a6:ed:9a:a8:89:b9:e2:c3:9c:d6:63:eb:9c:71:57'',
      kp_KeyType = Some ''rsa'', kp_Tags = []\<rparr>"

definition stored_ed25519_key :: KeyPairInfo where
  "stored_ed25519_key =
     \<lparr>kp_KeyPairId = Some ''key-0e4f5a6b'', kp_KeyName = Some ''admin-ed25519'',
      kp_KeyFingerprint = Some ''nThbg6kXUpJWGl7E1IGOCspRomTxdCARLviKw6E5SY8='',
      kp_KeyType = Some ''ed25519'', kp_Tags = []\<rparr>"

definition cloud_ed25519 :: AWSCloud where
  "cloud_ed25519 =
     \<lparr>DescribeKeyPairs = (\<lambda>names. (Some \<lparr>KeyPairs = [stored_ed25519_key]\<rparr>, None)),
      ImportKeyPair = (\<lambda>request.
        (Some \<lparr>out_KeyFingerprint = kp_KeyFingerprint stored_ed25519_key,
               out_KeyPairId = kp_KeyPairId stored_ed25519_key\<rparr>, None))\<rparr>"

definition new_ed25519_key :: SSHKey where
  "new_ed25519_key =
     \<lparr>ID = None, Name = Some ''admin-ed25519'', Lifecycle = ''Sync'', Shared = False,
      PublicKey = Some (NewStringResource ''ssh-ed25519 AAAAC3NzaC1lZDI1NTE5''),
      KeyFingerprint = Some ''SHA256:nThbg6kXUpJWGl7E1IGOCspRomTxdCARLviKw6E5SY8'',
      Tags = Mapping.empty\<rparr>"

definition example_ComputeAWSKeyFingerprint :: "string \<Rightarrow> string \<times> error option" where
  "example_ComputeAWSKeyFingerprint publicKey =
     (if publicKey = ''ssh-rsa AAAAB3NzaC1yc2E''
      then (''c4:a6:ed:9a:a8:89:b9:e2:c3:9c:d6:63:eb:9c:71:57'', None)
      else ([], Some (OtherErr ''error parsing SSH public key'')))"

definition cloud_without_answer :: AWSCloud where
  "cloud_without_answer =
     \<lparr>DescribeKeyPairs = (\<lambda>names. (None, None)),
      ImportKeyPair = (\<lambda>request. (None, None))\<rparr>"

definition api_target :: "AWSCloud \<Rightarrow> AWSAPITarget" where
  "api_target cloud = \<lparr>Cloud = cloud, AddAWSTags = (\<lambda>id tags. None)\<rparr>"

definition terraform_target :: TerraformTarget where
  "terraform_target =
     \<lparr>AddFileResource = (\<lambda>resourceType resourceName key r base64.
        case r of
          None \<Rightarrow> (None, None)
        | Some res \<Rightarrow>
           (case Open res of
              Inl x \<Rightarrow> (None, Some x)
            | Inr d \<Rightarrow>
               (Some (LiteralFunctionExpression ''file''
                  [''${path.module}/data/'' @ resourceType @ ''_'' @ resourceName @ ''_'' @ key]),
                None))),
      RenderResource = (\<lambda>resourceType resourceName tf. None)\<rparr>"

definition tagged_key :: SSHKey where
  "tagged_key =
     \<lparr>ID = Some ''key-0a1b2c3d'', Name = Some ''kubernetes.minimal.example.com-c4:a6:ed'',
      Lifecycle = ''Sync'', Shared = False,
      PublicKey = Some (NewStringResource ''ssh-rsa AAAAB3NzaC1yc2E''),
      KeyFingerprint = Some ''c4:a6:ed:9a:a8:89:b9:e2:c3:9c:d6:63:eb:9c:71:57'',
      Tags = Mapping.update ''KubernetesCluster'' ''minimal.example.com'' Mapping.empty\<rparr>"

definition unreadable_key :: SSHKey where
  "unreadable_key =
     \<lparr>ID = None, Name = Some ''kubernetes.minimal.example.com-c4:a6:ed'', Lifecycle = ''Sync'',
      Shared = False,
      PublicKey = Some (Resource (Inl (OtherErr ''open id_rsa.pub: no such file or directory''))),
      KeyFingerprint = None, Tags = Mapping.empty\<rparr>"

section \<open>Properties of the SSHKey task\<close>

subsection \<open>The branches of find\<close>

lemma clear_not_found_None:
  "(clear_not_found err = None) = (case err of None \<Rightarrow> True | Some x \<Rightarrow> is_not_found x)"
  by (auto simp: clear_not_found_def is_not_found_def split: option.splits error.splits)

lemma clear_not_found_keep: "\<not> is_not_found x \<Longrightarrow> clear_not_found (Some x) = Some x"
  by (auto simp: clear_not_found_def is_not_found_def split: error.splits)

lemma find_failure:
  assumes "DescribeKeyPairs cloud [Name e] = (response, err)" and "clear_not_found err = Some x"
  shows "find_SSHKey m cloud e = Returns ((None, Some (ErrorListingSSHKeys x)), e)"
  using assms by (simp add: find_SSHKey_def)

lemma find_none:
  assumes "DescribeKeyPairs cloud [Name e] = (response, err)" and "clear_not_found err = None"
    and "(case response of None \<Rightarrow> [] | Some r \<Rightarrow> KeyPairs r) = []"
  shows "find_SSHKey m cloud e =
           (if PublicKey e = None
            then (case Name e of
                    None \<Rightarrow> Panics
                  | Some n \<Rightarrow> if n \<noteq> [] then Returns ((None, Some (UnableToFindSSHKey n)), e)
                              else Returns ((None, None), e))
            else Returns ((None, None), e))"
  using assms by (simp add: find_SSHKey_def IsExistingKey_def)

lemma find_one:
  assumes "DescribeKeyPairs cloud [Name e] = (response, err)" and "clear_not_found err = None"
    and "(case response of None \<Rightarrow> [] | Some r \<Rightarrow> KeyPairs r) = [k]"
  shows "find_SSHKey m cloud e =
           (if PublicKey e = None
            then (case Name e of
                    None \<Rightarrow> Panics
                  | Some n \<Rightarrow>
                      if n \<noteq> []
                      then Returns ((Some (actual_of m e k), None),
                                    e\<lparr>ID := ID (actual_of m e k),
                                      KeyFingerprint := KeyFingerprint (actual_of m e k)\<rparr>)
                      else Returns ((Some (actual_of m e k), None), e\<lparr>ID := ID (actual_of m e k)\<rparr>))
            else Returns ((Some (actual_of m e k), None), e\<lparr>ID := ID (actual_of m e k)\<rparr>))"
  using assms by (simp add: find_SSHKey_def IsExistingKey_def Let_def)

lemma find_many:
  assumes "DescribeKeyPairs cloud [Name e] = (response, err)" and "clear_not_found err = None"
    and "(case response of None \<Rightarrow> [] | Some r \<Rightarrow> KeyPairs r) = k # k' # ks"
  shows "find_SSHKey m cloud e =
           (case Name e of
              None \<Rightarrow> Panics
            | Some n \<Rightarrow> Returns ((None, Some (FoundMultipleSSHKeys n)), e))"
  using assms by (simp add: find_SSHKey_def)

text \<open>A returned actual comes from exactly one key pair of a successful answer.\<close>

lemma find_Some_actual:
  assumes "find_SSHKey m cloud e = Returns ((Some a, err), e')"
  shows "\<exists>r k. fst (DescribeKeyPairs cloud [Name e]) = Some r \<and> KeyPairs r = [k]
           \<and> clear_not_found (snd (DescribeKeyPairs cloud [Name e])) = None
           \<and> a = actual_of m e k \<and> err = None
           \<and> e' = (if PublicKey e = None \<and> Name e \<noteq> Some []
                     then e\<lparr>ID := ID a, KeyFingerprint := KeyFingerprint a\<rparr>
                     else e\<lparr>ID := ID a\<rparr>)
           \<and> (PublicKey e = None \<longrightarrow> Name e \<noteq> None)"
proof -
  obtain response err0 where d: "DescribeKeyPairs cloud [Name e] = (response, err0)"
    by (cases "DescribeKeyPairs cloud [Name e]")
  show ?thesis
  proof (cases "clear_not_found err0")
    case (Some x)
    with assms d show ?thesis by (simp add: find_failure)
  next
    case None
    show ?thesis
    proof (cases "case response of None \<Rightarrow> [] | Some r \<Rightarrow> KeyPairs r")
      case Nil
      with assms d None show ?thesis
        by (simp add: find_none split: if_splits option.splits)
    next
      case (Cons k ks)
      show ?thesis
      proof (cases ks)
        case Nil
        with Cons have one: "(case response of None \<Rightarrow> [] | Some r \<Rightarrow> KeyPairs r) = [k]" by simp
        then obtain r where r: "response = Some r" "KeyPairs r = [k]"
          by (cases response) auto
        from assms show ?thesis
          unfolding find_one [OF d None one] using d r None
          by (auto split: if_splits option.splits)
      next
        case (Cons k' ks')
        with \<open>(case response of None \<Rightarrow> [] | Some r \<Rightarrow> KeyPairs r) = k # ks\<close>
        have "(case response of None \<Rightarrow> [] | Some r \<Rightarrow> KeyPairs r) = k # k' # ks'" by simp
        with assms d None show ?thesis
          by (simp add: find_many split: option.splits)
      qed
    qed
  qed
qed


lemma actual_of_fields:
  "ID (actual_of m e k) = kp_KeyPairId k"
  "Name (actual_of m e k) = kp_KeyName k"
  "Lifecycle (actual_of m e k) = Lifecycle e"
  "Shared (actual_of m e k) = Shared e"
  "KeyFingerprint (actual_of m e k) = normalized_fingerprint k"
  "Tags (actual_of m e k) = (if Shared e then Tags e else m (kp_Tags k))"
  "PublicKey (actual_of m e k) =
     (if ValueOf (normalized_fingerprint k) = ValueOf (KeyFingerprint e) then PublicKey e else None)"
  by (simp_all add: actual_of_def normalized_fingerprint_def PtrTo_def Let_def)

text \<open>The actual task does not depend on the ID of the expected task.\<close>

lemma actual_of_ID_update: "actual_of m (e\<lparr>ID := i\<rparr>) k = actual_of m e k"
  by (simp add: actual_of_def Let_def)

lemma actual_of_fingerprint_update:
  "PublicKey e = None \<Longrightarrow>
   actual_of m (e\<lparr>ID := i, KeyFingerprint := KeyFingerprint (actual_of m e k)\<rparr>) k
     = actual_of m e k"
  by (simp add: actual_of_def Let_def)

text \<open>The tags of the tagged example are not empty.\<close>

lemma tagged_key_Tags: "Tags tagged_key \<noteq> Mapping.empty"
proof
  assume "Tags tagged_key = Mapping.empty"
  then have "Mapping.lookup (Tags tagged_key) ''KubernetesCluster''
               = Mapping.lookup Mapping.empty ''KubernetesCluster''"
    by simp
  then show False by (simp add: tagged_key_def)
qed

lemma find_again:
  assumes "find_SSHKey m cloud e = Returns ((Some a, err), e')"
  shows "find_SSHKey m cloud e' = Returns ((Some a, None), e')"
proof -
  from find_Some_actual [OF assms] obtain r k where
    r: "fst (DescribeKeyPairs cloud [Name e]) = Some r" "KeyPairs r = [k]"
    and c: "clear_not_found (snd (DescribeKeyPairs cloud [Name e])) = None"
    and a: "a = actual_of m e k"
    and e': "e' = (if PublicKey e = None \<and> Name e \<noteq> Some []
                    then e\<lparr>ID := ID a, KeyFingerprint := KeyFingerprint a\<rparr>
                    else e\<lparr>ID := ID a\<rparr>)"
    and nm: "PublicKey e = None \<longrightarrow> Name e \<noteq> None"
    by (elim exE conjE)
  have name: "Name e' = Name e"
    using e' by (simp split: if_splits)
  have d: "DescribeKeyPairs cloud [Name e'] = (Some r, snd (DescribeKeyPairs cloud [Name e]))"
    using r name by (simp add: prod_eq_iff)
  have one: "(case Some r of None \<Rightarrow> [] | Some r \<Rightarrow> KeyPairs r) = [k]"
    using r by simp
  have a': "actual_of m e' k = a"
    using e' a by (simp add: actual_of_ID_update actual_of_fingerprint_update split: if_splits)
  show ?thesis
    unfolding find_one [OF d c one] a'
    using nm e' by (auto split: option.splits)
qed

subsection \<open>find\<close>

text \<open>
  C1, as amended. When the backend reports the key pair absent (no key pair, with no
  error or with the error code \<open>InvalidKeyPair.NotFound\<close>), find returns a nil actual
  and no error for a task that has a public key or whose Name is empty; for a task
  without a public key whose Name is not empty it returns the error "unable to find
  specified SSH key", and without a public key and with a nil Name it panics. On any
  other error of \<open>DescribeKeyPairs\<close> it returns a nil actual and the error "error
  listing SSHKeys". The expected task is left as it was in each case.
\<close>

theorem find_absent_or_failure:
  "(reports_absent cloud e \<and> (PublicKey e \<noteq> None \<or> Name e = Some [])
      \<longrightarrow> find_SSHKey m cloud e = Returns ((None, None), e))
   \<and> (reports_absent cloud e \<and> PublicKey e = None \<and> Name e = Some n \<and> n \<noteq> []
      \<longrightarrow> find_SSHKey m cloud e = Returns ((None, Some (UnableToFindSSHKey n)), e))
   \<and> (reports_absent cloud e \<and> PublicKey e = None \<and> Name e = None
      \<longrightarrow> find_SSHKey m cloud e = Panics)
   \<and> (snd (DescribeKeyPairs cloud [Name e]) = Some x \<and> \<not> is_not_found x
      \<longrightarrow> find_SSHKey m cloud e = Returns ((None, Some (ErrorListingSSHKeys x)), e))"
proof -
  obtain response err where d: "DescribeKeyPairs cloud [Name e] = (response, err)"
    by (cases "DescribeKeyPairs cloud [Name e]")
  have absent: "find_SSHKey m cloud e =
           (if PublicKey e = None
            then (case Name e of
                    None \<Rightarrow> Panics
                  | Some n \<Rightarrow> if n \<noteq> [] then Returns ((None, Some (UnableToFindSSHKey n)), e)
                              else Returns ((None, None), e))
            else Returns ((None, None), e))" if "reports_absent cloud e"
  proof -
    from that d have "clear_not_found err = None"
      and "(case response of None \<Rightarrow> [] | Some r \<Rightarrow> KeyPairs r) = []"
      by (auto simp: reports_absent_def clear_not_found_None split: option.splits)
    with d show ?thesis by (rule find_none)
  qed
  have failure: "find_SSHKey m cloud e = Returns ((None, Some (ErrorListingSSHKeys x)), e)"
    if "snd (DescribeKeyPairs cloud [Name e]) = Some x" and "\<not> is_not_found x"
  proof -
    from that d have "clear_not_found err = Some x"
      by (simp add: clear_not_found_keep)
    with d show ?thesis by (rule find_failure)
  qed
  show ?thesis
    using absent failure by (auto split: option.splits)
qed

theorem find_absent_or_failure_witness:
  "reports_absent (cloud_returning []) new_key \<and> PublicKey new_key \<noteq> None
   \<and> find_SSHKey example_mapEC2TagsToMap (cloud_returning []) new_key = Returns ((None, None), new_key)
   \<and> reports_absent (cloud_failing (AwsErr ''InvalidKeyPair.NotFound'' ''The key pair does not exist''))
        existing_key
   \<and> PublicKey existing_key = None \<and> Name existing_key = Some ''my-existing-key''
   \<and> find_SSHKey example_mapEC2TagsToMap
        (cloud_failing (AwsErr ''InvalidKeyPair.NotFound'' ''The key pair does not exist'')) existing_key
      = Returns ((None, Some (UnableToFindSSHKey ''my-existing-key'')), existing_key)
   \<and> reports_absent (cloud_returning []) (existing_key\<lparr>ID := Some ''key-0a1b2c3d'', Name := None\<rparr>)
   \<and> find_SSHKey example_mapEC2TagsToMap (cloud_returning [])
        (existing_key\<lparr>ID := Some ''key-0a1b2c3d'', Name := None\<rparr>) = Panics
   \<and> snd (DescribeKeyPairs (cloud_failing (AwsErr ''RequestLimitExceeded'' ''Request limit exceeded''))
        [Name new_key]) = Some (AwsErr ''RequestLimitExceeded'' ''Request limit exceeded'')
   \<and> \<not> is_not_found (AwsErr ''RequestLimitExceeded'' ''Request limit exceeded'')
   \<and> find_SSHKey example_mapEC2TagsToMap
        (cloud_failing (AwsErr ''RequestLimitExceeded'' ''Request limit exceeded'')) new_key
      = Returns ((None, Some (ErrorListingSSHKeys
                               (AwsErr ''RequestLimitExceeded'' ''Request limit exceeded''))), new_key)"
proof -
  let ?nf = "AwsErr ''InvalidKeyPair.NotFound'' ''The key pair does not exist''"
  let ?lim = "AwsErr ''RequestLimitExceeded'' ''Request limit exceeded''"
  let ?anon = "existing_key\<lparr>ID := Some ''key-0a1b2c3d'', Name := None\<rparr>"
  have h1: "reports_absent (cloud_returning []) new_key \<and> PublicKey new_key \<noteq> None"
    by (simp add: reports_absent_def cloud_returning_def new_key_def)
  have h2: "reports_absent (cloud_failing ?nf) existing_key \<and> PublicKey existing_key = None
            \<and> Name existing_key = Some ''my-existing-key''"
    by (simp add: reports_absent_def cloud_failing_def existing_key_def is_not_found_def)
  have h3: "reports_absent (cloud_returning []) ?anon \<and> PublicKey ?anon = None \<and> Name ?anon = None"
    by (simp add: reports_absent_def cloud_returning_def existing_key_def)
  have h4: "snd (DescribeKeyPairs (cloud_failing ?lim) [Name new_key]) = Some ?lim
            \<and> \<not> is_not_found ?lim"
    by (simp add: cloud_failing_def is_not_found_def)
  note t = find_absent_or_failure [where m = example_mapEC2TagsToMap]
  from h1 t [of "cloud_returning []" new_key]
  have c1: "find_SSHKey example_mapEC2TagsToMap (cloud_returning []) new_key
              = Returns ((None, None), new_key)"
    by blast
  from h2 t [of "cloud_failing ?nf" existing_key "''my-existing-key''"]
  have c2: "find_SSHKey example_mapEC2TagsToMap (cloud_failing ?nf) existing_key
              = Returns ((None, Some (UnableToFindSSHKey ''my-existing-key'')), existing_key)"
    by simp
  from h3 t [of "cloud_returning []" ?anon]
  have c3: "find_SSHKey example_mapEC2TagsToMap (cloud_returning []) ?anon = Panics"
    by blast
  from h4 t [of "cloud_failing ?lim" new_key _ ?lim]
  have c4: "find_SSHKey example_mapEC2TagsToMap (cloud_failing ?lim) new_key
              = Returns ((None, Some (ErrorListingSSHKeys ?lim)), new_key)"
    by blast
  from h1 h2 h3 h4 c1 c2 c3 c4 show ?thesis by simp
qed

text \<open>
  C1 as stated fails: for a task without a public key and with a non-empty Name, an
  absent key pair makes find return an error, not a nil actual with no error; and for
  a task without a public key whose Name is nil, find panics.
\<close>

theorem find_absent_existing_key_counterexample:
  "reports_absent (cloud_returning []) existing_key
   \<and> IsExistingKey existing_key
   \<and> find_SSHKey example_mapEC2TagsToMap (cloud_returning []) existing_key
       = Returns ((None, Some (UnableToFindSSHKey ''my-existing-key'')), existing_key)
   \<and> find_SSHKey example_mapEC2TagsToMap (cloud_returning []) existing_key
       \<noteq> Returns ((None, None), existing_key)
   \<and> reports_absent (cloud_returning []) (existing_key\<lparr>ID := Some ''key-0a1b2c3d'', Name := None\<rparr>)
   \<and> find_SSHKey example_mapEC2TagsToMap (cloud_returning [])
        (existing_key\<lparr>ID := Some ''key-0a1b2c3d'', Name := None\<rparr>) = Panics"
  by (simp add: reports_absent_def cloud_returning_def existing_key_def IsExistingKey_def
      find_SSHKey_def clear_not_found_def)

text \<open>
  C4, as amended. When the backend answers the request for the task's Name with more
  than one key pair, find never returns an actual: it selects none of the candidates,
  and whenever it returns, it returns an error and leaves the expected task as it was.
  For a task with a non-nil Name it returns the error "Found multiple SSHKeys with
  Name" carrying the Name when the call gave no error (or only the not-found code),
  and the listing error otherwise. For a task with a nil Name it panics when the call
  gave no error (or only the not-found code), and returns the listing error otherwise.
\<close>

theorem find_multiple_is_error:
  assumes "DescribeKeyPairs cloud [Name e] = (Some r, err)"
    and "1 < length (KeyPairs r)"
  shows "(Name e = Some n \<longrightarrow>
            find_SSHKey m cloud e =
              Returns ((None, Some (case clear_not_found err of
                                      None \<Rightarrow> FoundMultipleSSHKeys n
                                    | Some x \<Rightarrow> ErrorListingSSHKeys x)), e))
         \<and> (Name e = Some n \<and> err = None \<longrightarrow>
              find_SSHKey m cloud e = Returns ((None, Some (FoundMultipleSSHKeys n)), e))
         \<and> (\<forall>a err' e'. find_SSHKey m cloud e = Returns ((a, err'), e')
                \<longrightarrow> a = None \<and> err' \<noteq> None \<and> e' = e)
         \<and> (Name e = None \<longrightarrow>
              find_SSHKey m cloud e =
                (case clear_not_found err of
                   None \<Rightarrow> Panics
                 | Some x \<Rightarrow> Returns ((None, Some (ErrorListingSSHKeys x)), e)))
         \<and> (Name e = None \<and> err = None \<longrightarrow> find_SSHKey m cloud e = Panics)"
proof -
  from assms(2) obtain k k' ks where ks: "KeyPairs r = k # k' # ks"
    by (cases "KeyPairs r"; cases "tl (KeyPairs r)") auto
  have many: "(case Some r of None \<Rightarrow> [] | Some r \<Rightarrow> KeyPairs r) = k # k' # ks"
    using ks by simp
  have result: "find_SSHKey m cloud e =
           (case clear_not_found err of
              None \<Rightarrow> (case Name e of
                         None \<Rightarrow> Panics
                       | Some n \<Rightarrow> Returns ((None, Some (FoundMultipleSSHKeys n)), e))
            | Some x \<Rightarrow> Returns ((None, Some (ErrorListingSSHKeys x)), e))"
  proof (cases "clear_not_found err")
    case None
    from find_many [OF assms(1) None many] None show ?thesis by simp
  next
    case (Some x)
    from find_failure [OF assms(1) Some] Some show ?thesis by simp
  qed
  show ?thesis
    unfolding result by (auto simp: clear_not_found_def split: option.splits)
qed

theorem find_multiple_is_error_witness:
  "DescribeKeyPairs (cloud_returning [stored_key, stored_key\<lparr>kp_KeyPairId := Some ''key-0e4f''\<rparr>])
      [Name new_key]
     = (Some \<lparr>KeyPairs = [stored_key, stored_key\<lparr>kp_KeyPairId := Some ''key-0e4f''\<rparr>]\<rparr>, None)
   \<and> 1 < length [stored_key, stored_key\<lparr>kp_KeyPairId := Some ''key-0e4f''\<rparr>]
   \<and> Name new_key = Some ''kubernetes.minimal.example.com-c4:a6:ed''
   \<and> find_SSHKey example_mapEC2TagsToMap
        (cloud_returning [stored_key, stored_key\<lparr>kp_KeyPairId := Some ''key-0e4f''\<rparr>]) new_key
      = Returns ((None, Some (FoundMultipleSSHKeys ''kubernetes.minimal.example.com-c4:a6:ed'')),
                 new_key)
   \<and> DescribeKeyPairs (cloud_returning [stored_key, stored_key\<lparr>kp_KeyPairId := Some ''key-0e4f''\<rparr>])
      [Name (new_key\<lparr>Name := None\<rparr>)]
     = (Some \<lparr>KeyPairs = [stored_key, stored_key\<lparr>kp_KeyPairId := Some ''key-0e4f''\<rparr>]\<rparr>, None)
   \<and> Name (new_key\<lparr>Name := None\<rparr>) = None
   \<and> find_SSHKey example_mapEC2TagsToMap
        (cloud_returning [stored_key, stored_key\<lparr>kp_KeyPairId := Some ''key-0e4f''\<rparr>])
        (new_key\<lparr>Name := None\<rparr>) = Panics"
proof -
  let ?ks = "[stored_key, stored_key\<lparr>kp_KeyPairId := Some ''key-0e4f''\<rparr>]"
  let ?anon = "new_key\<lparr>Name := None\<rparr>"
  have d: "DescribeKeyPairs (cloud_returning ?ks) [Name new_key] = (Some \<lparr>KeyPairs = ?ks\<rparr>, None)"
    and d': "DescribeKeyPairs (cloud_returning ?ks) [Name ?anon] = (Some \<lparr>KeyPairs = ?ks\<rparr>, None)"
    by (simp_all add: cloud_returning_def)
  have l: "1 < length (KeyPairs \<lparr>KeyPairs = ?ks\<rparr>)" by simp
  have n: "Name new_key = Some ''kubernetes.minimal.example.com-c4:a6:ed'' \<and> (None :: error option) = None"
    by (simp add: new_key_def)
  have n': "Name ?anon = None \<and> (None :: error option) = None"
    by simp
  note t = find_multiple_is_error [OF d l, of "''kubernetes.minimal.example.com-c4:a6:ed''"
      example_mapEC2TagsToMap, THEN conjunct2, THEN conjunct1, THEN mp, OF n]
  note t' = find_multiple_is_error [OF d' l, of _ example_mapEC2TagsToMap,
      THEN conjunct2, THEN conjunct2, THEN conjunct2, THEN conjunct2, THEN mp, OF n']
  from t t' d d' n n' show ?thesis by simp
qed

text \<open>
  C4 as stated fails: for a task with a nil Name, an answer with two key pairs makes
  find panic where it formats the Name for the error, so that no error is returned.
\<close>

theorem find_multiple_nil_Name_counterexample:
  "DescribeKeyPairs (cloud_returning [stored_key, stored_key\<lparr>kp_KeyPairId := Some ''key-0e4f''\<rparr>])
      [Name (new_key\<lparr>Name := None\<rparr>)]
     = (Some \<lparr>KeyPairs = [stored_key, stored_key\<lparr>kp_KeyPairId := Some ''key-0e4f''\<rparr>]\<rparr>, None)
   \<and> 1 < length [stored_key, stored_key\<lparr>kp_KeyPairId := Some ''key-0e4f''\<rparr>]
   \<and> find_SSHKey example_mapEC2TagsToMap
        (cloud_returning [stored_key, stored_key\<lparr>kp_KeyPairId := Some ''key-0e4f''\<rparr>])
        (new_key\<lparr>Name := None\<rparr>) = Panics"
  by (simp add: find_SSHKey_def cloud_returning_def clear_not_found_def new_key_def)

text \<open>
  C7. A successful find stores the ID of the key pair it discovered into the expected
  task; the identity used for comparison is the Name, which find does not change; and
  find run again on the task as the first run left it, against the same backend,
  returns the same actual (so the same ID) and leaves the task as it is.
\<close>

theorem find_identity_stable:
  assumes "find_SSHKey m cloud e = Returns ((Some a, err), e')"
  shows "err = None
         \<and> (\<exists>r k. fst (DescribeKeyPairs cloud [Name e]) = Some r \<and> KeyPairs r = [k]
                  \<and> ID e' = kp_KeyPairId k)
         \<and> ID e' = ID a
         \<and> CompareWithID e = Name e \<and> CompareWithID e' = CompareWithID e
         \<and> find_SSHKey m cloud e' = Returns ((Some a, None), e')"
proof -
  from find_Some_actual [OF assms] obtain r k where
    r: "fst (DescribeKeyPairs cloud [Name e]) = Some r" "KeyPairs r = [k]"
    and a: "a = actual_of m e k" and err: "err = None"
    and e': "e' = (if PublicKey e = None \<and> Name e \<noteq> Some []
                    then e\<lparr>ID := ID a, KeyFingerprint := KeyFingerprint a\<rparr>
                    else e\<lparr>ID := ID a\<rparr>)"
    by (elim exE conjE)
  have name: "Name e' = Name e" and id: "ID e' = ID a"
    using e' by (simp_all split: if_splits)
  from err r id a name find_again [OF assms] show ?thesis
    by (auto simp: CompareWithID_def actual_of_fields)
qed

theorem find_identity_stable_witness:
  "find_SSHKey example_mapEC2TagsToMap (cloud_returning [stored_key]) new_key
     = Returns ((Some (new_key\<lparr>ID := Some ''key-0a1b2c3d''\<rparr>), None),
                new_key\<lparr>ID := Some ''key-0a1b2c3d''\<rparr>)
   \<and> ID (new_key\<lparr>ID := Some ''key-0a1b2c3d''\<rparr>) = Some ''key-0a1b2c3d''
   \<and> CompareWithID (new_key\<lparr>ID := Some ''key-0a1b2c3d''\<rparr>) = CompareWithID new_key
   \<and> find_SSHKey example_mapEC2TagsToMap (cloud_returning [stored_key])
        (new_key\<lparr>ID := Some ''key-0a1b2c3d''\<rparr>)
      = Returns ((Some (new_key\<lparr>ID := Some ''key-0a1b2c3d''\<rparr>), None),
                 new_key\<lparr>ID := Some ''key-0a1b2c3d''\<rparr>)"
proof -
  have f: "find_SSHKey example_mapEC2TagsToMap (cloud_returning [stored_key]) new_key
     = Returns ((Some (new_key\<lparr>ID := Some ''key-0a1b2c3d''\<rparr>), None),
                new_key\<lparr>ID := Some ''key-0a1b2c3d''\<rparr>)"
    by (simp add: find_SSHKey_def cloud_returning_def stored_key_def new_key_def
        clear_not_found_def actual_of_def ValueOf_def KeyTypeEd25519_def IsExistingKey_def
        example_mapEC2TagsToMap_def Let_def)
  from find_identity_stable [OF f] f show ?thesis by simp
qed

lemma actual_of_converged:
  assumes "converged m e k"
  shows "actual_of m e k = e\<lparr>ID := kp_KeyPairId k\<rparr>"
  using assms
  by (cases e) (auto simp: converged_def actual_of_def normalized_fingerprint_def PtrTo_def Let_def)

lemma BuildChanges_same: "BuildChanges a a = no_changes"
  by (simp add: BuildChanges_def no_changes_def)

lemma createKeypair_success:
  assumes "createKeypair ts cloud e = Returns (None, ec, calls)"
  shows "\<exists>request out. calls = [ImportKeyPairCall request]
           \<and> ImportKeyPair cloud request = (Some out, None)
           \<and> ec = e\<lparr>KeyFingerprint := out_KeyFingerprint out, ID := out_KeyPairId out\<rparr>"
  using assms
  by (auto simp: createKeypair_def Let_def split: option.splits sum.splits prod.splits)

text \<open>
  C3, as amended. (1) When the fingerprint of the one key pair the backend stores,
  normalized for Ed25519, has the value of the expected fingerprint, the actual that
  find returns has the PublicKey and the Lifecycle of the expected task and, for a
  shared key, its Tags. (2) When the task is converged with that key pair (same name,
  same normalized fingerprint and, unless shared, same tags), the actual is equal to
  the expected task as find leaves it, so the change-set between them is empty, and
  find run again returns the same. (3) A successful createKeypair stores the
  fingerprint and the ID of the backend's answer to ImportKeyPair into the expected
  task and changes nothing else. (4) When the backend then reports one key pair with
  that ID and fingerprint, find reports that ID; for a key that is not Ed25519 it
  reports the stored fingerprint and the PublicKey of the task, and for an Ed25519 key
  it reports the stored fingerprint in its normalized form. (5) Under the fingerprint
  condition alone, the change-set holds at most the Name (when the key pair's name is
  another) and, for a key that is not shared, the Tags (when the key pair's tags are
  others).
\<close>

theorem find_converged_and_create:
  "(find_SSHKey m cloud e = Returns ((Some a, err), e')
      \<and> fst (DescribeKeyPairs cloud [Name e]) = Some r \<and> KeyPairs r = [k]
      \<and> ValueOf (normalized_fingerprint k) = ValueOf (KeyFingerprint e)
     \<longrightarrow> PublicKey a = PublicKey e \<and> Lifecycle a = Lifecycle e
         \<and> (Shared e \<longrightarrow> Tags a = Tags e))
   \<and> (find_SSHKey m cloud e = Returns ((Some a, err), e')
      \<and> fst (DescribeKeyPairs cloud [Name e]) = Some r \<and> KeyPairs r = [k]
      \<and> converged m e k
     \<longrightarrow> a = e' \<and> BuildChanges a e' = no_changes
         \<and> find_SSHKey m cloud e' = Returns ((Some a, None), e'))
   \<and> (createKeypair ts cloud e = Returns (None, ec, calls)
     \<longrightarrow> (\<exists>request out. calls = [ImportKeyPairCall request]
            \<and> ImportKeyPair cloud request = (Some out, None)
            \<and> ec = e\<lparr>KeyFingerprint := out_KeyFingerprint out, ID := out_KeyPairId out\<rparr>))
   \<and> (createKeypair ts cloud e = Returns (None, ec, calls)
      \<and> find_SSHKey m cloudc ec = Returns ((Some ac, errc), ec')
      \<and> fst (DescribeKeyPairs cloudc [Name ec]) = Some rc \<and> KeyPairs rc = [kc]
      \<and> kp_KeyPairId kc = ID ec \<and> kp_KeyFingerprint kc = KeyFingerprint ec
     \<longrightarrow> ID ac = ID ec \<and> ID ec' = ID ec
         \<and> KeyFingerprint ac =
             (if ValueOf (kp_KeyType kc) = KeyTypeEd25519
              then Some (''SHA256:'' @ TrimRight (ValueOf (KeyFingerprint ec)) ''='')
              else KeyFingerprint ec)
         \<and> (ValueOf (kp_KeyType kc) \<noteq> KeyTypeEd25519
              \<longrightarrow> KeyFingerprint ac = KeyFingerprint ec \<and> PublicKey ac = PublicKey ec))
   \<and> (find_SSHKey m cloud e = Returns ((Some a, err), e')
      \<and> fst (DescribeKeyPairs cloud [Name e]) = Some r \<and> KeyPairs r = [k]
      \<and> normalized_fingerprint k = KeyFingerprint e
     \<longrightarrow> BuildChanges a e' =
           no_changes\<lparr>Name := (if kp_KeyName k = Name e then None else Name e),
                      Tags := (if Shared e \<or> m (kp_Tags k) = Tags e
                               then Mapping.empty else Tags e)\<rparr>)"
proof (intro conjI impI)
  assume h: "find_SSHKey m cloud e = Returns ((Some a, err), e')
      \<and> fst (DescribeKeyPairs cloud [Name e]) = Some r \<and> KeyPairs r = [k]
      \<and> ValueOf (normalized_fingerprint k) = ValueOf (KeyFingerprint e)"
  with find_Some_actual [of m cloud e a err e'] have a: "a = actual_of m e k"
    by auto
  from h show "PublicKey a = PublicKey e" by (simp add: a actual_of_fields)
  show "Lifecycle a = Lifecycle e" by (simp add: a actual_of_fields)
  assume "Shared e"
  then show "Tags a = Tags e" by (simp add: a actual_of_fields)
next
  assume h: "find_SSHKey m cloud e = Returns ((Some a, err), e')
      \<and> fst (DescribeKeyPairs cloud [Name e]) = Some r \<and> KeyPairs r = [k]
      \<and> converged m e k"
  with find_Some_actual [of m cloud e a err e']
  have a: "a = actual_of m e k"
    and e': "e' = (if PublicKey e = None \<and> Name e \<noteq> Some []
                    then e\<lparr>ID := ID a, KeyFingerprint := KeyFingerprint a\<rparr>
                    else e\<lparr>ID := ID a\<rparr>)"
    by auto
  from h have a2: "a = e\<lparr>ID := kp_KeyPairId k\<rparr>"
    by (simp add: a actual_of_converged)
  with e' show eq: "a = e'" by simp
  then show "BuildChanges a e' = no_changes" by (simp add: BuildChanges_same)
  from h find_again [of m cloud e a err e']
  show "find_SSHKey m cloud e' = Returns ((Some a, None), e')"
    by blast
next
  assume "createKeypair ts cloud e = Returns (None, ec, calls)"
  then show "\<exists>request out. calls = [ImportKeyPairCall request]
            \<and> ImportKeyPair cloud request = (Some out, None)
            \<and> ec = e\<lparr>KeyFingerprint := out_KeyFingerprint out, ID := out_KeyPairId out\<rparr>"
    by (rule createKeypair_success)
next
  assume h: "createKeypair ts cloud e = Returns (None, ec, calls)
      \<and> find_SSHKey m cloudc ec = Returns ((Some ac, errc), ec')
      \<and> fst (DescribeKeyPairs cloudc [Name ec]) = Some rc \<and> KeyPairs rc = [kc]
      \<and> kp_KeyPairId kc = ID ec \<and> kp_KeyFingerprint kc = KeyFingerprint ec"
  with find_Some_actual [of m cloudc ec ac errc ec']
  have a: "ac = actual_of m ec kc"
    and ec': "ec' = (if PublicKey ec = None \<and> Name ec \<noteq> Some []
                    then ec\<lparr>ID := ID ac, KeyFingerprint := KeyFingerprint ac\<rparr>
                    else ec\<lparr>ID := ID ac\<rparr>)"
    by auto
  from h show "ID ac = ID ec" by (simp add: a actual_of_fields)
  with ec' show "ID ec' = ID ec" by (simp split: if_splits)
  from h show "KeyFingerprint ac =
             (if ValueOf (kp_KeyType kc) = KeyTypeEd25519
              then Some (''SHA256:'' @ TrimRight (ValueOf (KeyFingerprint ec)) ''='')
              else KeyFingerprint ec)"
    by (simp add: a actual_of_fields normalized_fingerprint_def)
  assume "ValueOf (kp_KeyType kc) \<noteq> KeyTypeEd25519"
  with h show "KeyFingerprint ac = KeyFingerprint ec" and "PublicKey ac = PublicKey ec"
    by (simp_all add: a actual_of_fields normalized_fingerprint_def)
next
  assume h: "find_SSHKey m cloud e = Returns ((Some a, err), e')
      \<and> fst (DescribeKeyPairs cloud [Name e]) = Some r \<and> KeyPairs r = [k]
      \<and> normalized_fingerprint k = KeyFingerprint e"
  with find_Some_actual [of m cloud e a err e']
  have a: "a = actual_of m e k"
    and e': "e' = (if PublicKey e = None \<and> Name e \<noteq> Some []
                    then e\<lparr>ID := ID a, KeyFingerprint := KeyFingerprint a\<rparr>
                    else e\<lparr>ID := ID a\<rparr>)"
    by auto
  from h have fields: "ID a = ID e'" "Name a = kp_KeyName k" "Name e' = Name e"
    "Lifecycle a = Lifecycle e'" "Shared a = Shared e'" "PublicKey a = PublicKey e'"
    "KeyFingerprint a = KeyFingerprint e'" "Tags e' = Tags e" "Shared e' = Shared e"
    "Tags a = (if Shared e then Tags e else m (kp_Tags k))"
    unfolding e' by (simp_all add: a actual_of_fields)
  show "BuildChanges a e' =
           no_changes\<lparr>Name := (if kp_KeyName k = Name e then None else Name e),
                      Tags := (if Shared e \<or> m (kp_Tags k) = Tags e
                               then Mapping.empty else Tags e)\<rparr>"
    by (simp add: BuildChanges_def no_changes_def fields)
qed


theorem find_converged_and_create_witness:
  "find_SSHKey example_mapEC2TagsToMap cloud_ed25519 new_ed25519_key
     = Returns ((Some (new_ed25519_key\<lparr>ID := Some ''key-0e4f5a6b''\<rparr>), None),
                new_ed25519_key\<lparr>ID := Some ''key-0e4f5a6b''\<rparr>)
   \<and> fst (DescribeKeyPairs cloud_ed25519 [Name new_ed25519_key])
       = Some \<lparr>KeyPairs = [stored_ed25519_key]\<rparr>
   \<and> converged example_mapEC2TagsToMap new_ed25519_key stored_ed25519_key
   \<and> ValueOf (normalized_fingerprint stored_ed25519_key) = ValueOf (KeyFingerprint new_ed25519_key)
   \<and> BuildChanges (new_ed25519_key\<lparr>ID := Some ''key-0e4f5a6b''\<rparr>)
        (new_ed25519_key\<lparr>ID := Some ''key-0e4f5a6b''\<rparr>) = no_changes
   \<and> createKeypair example_EC2TagSpecification cloud_ed25519 new_ed25519_key
       = Returns (None,
                  new_ed25519_key\<lparr>KeyFingerprint := Some ''nThbg6kXUpJWGl7E1IGOCspRomTxdCARLviKw6E5SY8='',
                                  ID := Some ''key-0e4f5a6b''\<rparr>,
                  [ImportKeyPairCall
                     \<lparr>in_KeyName = Some ''admin-ed25519'',
                      in_TagSpecifications = [],
                      in_PublicKeyMaterial = Some ''ssh-ed25519 AAAAC3NzaC1lZDI1NTE5''\<rparr>])
   \<and> find_SSHKey example_mapEC2TagsToMap cloud_ed25519
        (new_ed25519_key\<lparr>KeyFingerprint := Some ''nThbg6kXUpJWGl7E1IGOCspRomTxdCARLviKw6E5SY8='',
                         ID := Some ''key-0e4f5a6b''\<rparr>)
       = Returns ((Some (new_ed25519_key\<lparr>ID := Some ''key-0e4f5a6b'', PublicKey := None\<rparr>), None),
                  new_ed25519_key\<lparr>KeyFingerprint := Some ''nThbg6kXUpJWGl7E1IGOCspRomTxdCARLviKw6E5SY8='',
                                  ID := Some ''key-0e4f5a6b''\<rparr>)
   \<and> KeyFingerprint (new_ed25519_key\<lparr>ID := Some ''key-0e4f5a6b'', PublicKey := None\<rparr>)
       = Some ''SHA256:nThbg6kXUpJWGl7E1IGOCspRomTxdCARLviKw6E5SY8''
   \<and> createKeypair example_EC2TagSpecification (cloud_returning [stored_key])
        (new_key\<lparr>KeyFingerprint := None\<rparr>)
       = Returns (None, new_key\<lparr>ID := Some ''key-0a1b2c3d''\<rparr>,
                  [ImportKeyPairCall
                     \<lparr>in_KeyName = Some ''kubernetes.minimal.example.com-c4:a6:ed'',
                      in_TagSpecifications = [],
                      in_PublicKeyMaterial = Some ''ssh-rsa AAAAB3NzaC1yc2E''\<rparr>])
   \<and> find_SSHKey example_mapEC2TagsToMap (cloud_returning [stored_key])
        (new_key\<lparr>ID := Some ''key-0a1b2c3d''\<rparr>)
       = Returns ((Some (new_key\<lparr>ID := Some ''key-0a1b2c3d''\<rparr>), None),
                  new_key\<lparr>ID := Some ''key-0a1b2c3d''\<rparr>)
   \<and> ValueOf (kp_KeyType stored_key) \<noteq> KeyTypeEd25519
   \<and> kp_KeyPairId stored_key = ID (new_key\<lparr>ID := Some ''key-0a1b2c3d''\<rparr>)
   \<and> kp_KeyFingerprint stored_key = KeyFingerprint (new_key\<lparr>ID := Some ''key-0a1b2c3d''\<rparr>)
   \<and> PublicKey (new_key\<lparr>ID := Some ''key-0a1b2c3d''\<rparr>)
       = Some (NewStringResource ''ssh-rsa AAAAB3NzaC1yc2E'')
   \<and> find_SSHKey example_mapEC2TagsToMap (cloud_returning [stored_key])
        (tagged_key\<lparr>Shared := True\<rparr>)
       = Returns ((Some (tagged_key\<lparr>Shared := True\<rparr>), None), tagged_key\<lparr>Shared := True\<rparr>)
   \<and> ValueOf (normalized_fingerprint stored_key)
       = ValueOf (KeyFingerprint (tagged_key\<lparr>Shared := True\<rparr>))
   \<and> Shared (tagged_key\<lparr>Shared := True\<rparr>)
   \<and> Tags (tagged_key\<lparr>Shared := True\<rparr>) = Tags tagged_key"
proof -
  let ?found = "new_ed25519_key\<lparr>ID := Some ''key-0e4f5a6b''\<rparr>"
  let ?created = "new_ed25519_key\<lparr>KeyFingerprint := Some ''nThbg6kXUpJWGl7E1IGOCspRomTxdCARLviKw6E5SY8='',
                                  ID := Some ''key-0e4f5a6b''\<rparr>"
  let ?reported = "new_ed25519_key\<lparr>ID := Some ''key-0e4f5a6b'', PublicKey := None\<rparr>"
  let ?request = "\<lparr>in_KeyName = Some ''admin-ed25519'', in_TagSpecifications = [],
                    in_PublicKeyMaterial = Some ''ssh-ed25519 AAAAC3NzaC1lZDI1NTE5''\<rparr>"
  let ?r = "\<lparr>KeyPairs = [stored_ed25519_key]\<rparr>"
  have trim: "TrimRight ''nThbg6kXUpJWGl7E1IGOCspRomTxdCARLviKw6E5SY8='' ''=''
                = ''nThbg6kXUpJWGl7E1IGOCspRomTxdCARLviKw6E5SY8''"
    by (simp add: TrimRight_def)
  have f: "find_SSHKey example_mapEC2TagsToMap cloud_ed25519 new_ed25519_key
             = Returns ((Some ?found, None), ?found)"
    by (simp add: find_SSHKey_def cloud_ed25519_def stored_ed25519_key_def new_ed25519_key_def
        clear_not_found_def actual_of_def ValueOf_def PtrTo_def KeyTypeEd25519_def
        IsExistingKey_def example_mapEC2TagsToMap_def Let_def trim)
  have f2: "find_SSHKey example_mapEC2TagsToMap cloud_ed25519 ?created
             = Returns ((Some ?reported, None), ?created)"
    by (simp add: find_SSHKey_def cloud_ed25519_def stored_ed25519_key_def new_ed25519_key_def
        clear_not_found_def actual_of_def ValueOf_def PtrTo_def KeyTypeEd25519_def
        IsExistingKey_def example_mapEC2TagsToMap_def Let_def trim)
  have d: "fst (DescribeKeyPairs cloud_ed25519 [Name new_ed25519_key]) = Some ?r"
    and d2: "fst (DescribeKeyPairs cloud_ed25519 [Name ?created]) = Some ?r"
    and ks: "KeyPairs ?r = [stored_ed25519_key]"
    by (simp_all add: cloud_ed25519_def)
  have c: "converged example_mapEC2TagsToMap new_ed25519_key stored_ed25519_key"
    by (simp add: converged_def stored_ed25519_key_def new_ed25519_key_def
        normalized_fingerprint_def ValueOf_def KeyTypeEd25519_def example_mapEC2TagsToMap_def trim)
  have v: "ValueOf (normalized_fingerprint stored_ed25519_key)
             = ValueOf (KeyFingerprint new_ed25519_key)"
    using c by (simp add: converged_def)
  have k: "createKeypair example_EC2TagSpecification cloud_ed25519 new_ed25519_key
           = Returns (None, ?created, [ImportKeyPairCall ?request])"
    by (simp add: createKeypair_def cloud_ed25519_def stored_ed25519_key_def new_ed25519_key_def
        ResourceAsBytes_def NewStringResource_def example_EC2TagSpecification_def Let_def)
  have s: "kp_KeyPairId stored_ed25519_key = ID ?created"
    "kp_KeyFingerprint stored_ed25519_key = KeyFingerprint ?created"
    by (simp_all add: stored_ed25519_key_def new_ed25519_key_def)
  have ed: "ValueOf (kp_KeyType stored_ed25519_key) = KeyTypeEd25519"
    by (simp add: stored_ed25519_key_def ValueOf_def KeyTypeEd25519_def)
  note t = find_converged_and_create [where m = example_mapEC2TagsToMap
      and cloud = cloud_ed25519 and e = new_ed25519_key and a = ?found and err = None
      and e' = ?found and r = ?r and k = stored_ed25519_key
      and ts = example_EC2TagSpecification and ec = ?created
      and calls = "[ImportKeyPairCall ?request]" and cloudc = cloud_ed25519
      and ac = ?reported and errc = None and ec' = ?created and rc = ?r
      and kc = stored_ed25519_key]
  note p1 = t [THEN conjunct1, THEN mp, OF conjI [OF f conjI [OF d conjI [OF ks v]]]]
  note p2 = t [THEN conjunct2, THEN conjunct1, THEN mp, OF conjI [OF f conjI [OF d conjI [OF ks c]]]]
  note p3 = t [THEN conjunct2, THEN conjunct2, THEN conjunct1, THEN mp, OF k]
  note p4 = t [THEN conjunct2, THEN conjunct2, THEN conjunct2, THEN conjunct1, THEN mp,
      OF conjI [OF k conjI [OF f2 conjI [OF d2 conjI [OF ks conjI [OF s(1) s(2)]]]]]]
  have nf: "normalized_fingerprint stored_ed25519_key = KeyFingerprint new_ed25519_key"
    using c by (simp add: converged_def)
  note p5 = t [THEN conjunct2, THEN conjunct2, THEN conjunct2, THEN conjunct2, THEN mp,
      OF conjI [OF f conjI [OF d conjI [OF ks nf]]]]
  from p2 p5 have b: "BuildChanges ?found ?found = no_changes" by blast
  from p4 ed have fp: "KeyFingerprint ?reported
      = Some (''SHA256:'' @ TrimRight (ValueOf (KeyFingerprint ?created)) ''='')"
    by simp
  have "KeyFingerprint ?reported = Some ''SHA256:nThbg6kXUpJWGl7E1IGOCspRomTxdCARLviKw6E5SY8''"
    unfolding fp by (simp add: new_ed25519_key_def ValueOf_def trim)
  note e25519 = this
  let ?rsa = "new_key\<lparr>ID := Some ''key-0a1b2c3d''\<rparr>"
  let ?rsa_request = "\<lparr>in_KeyName = Some ''kubernetes.minimal.example.com-c4:a6:ed'',
                        in_TagSpecifications = [],
                        in_PublicKeyMaterial = Some ''ssh-rsa AAAAB3NzaC1yc2E''\<rparr>"
  have k': "createKeypair example_EC2TagSpecification (cloud_returning [stored_key])
             (new_key\<lparr>KeyFingerprint := None\<rparr>)
           = Returns (None, ?rsa, [ImportKeyPairCall ?rsa_request])"
    by (simp add: createKeypair_def cloud_returning_def new_key_def ResourceAsBytes_def
        NewStringResource_def example_EC2TagSpecification_def Let_def)
  have f': "find_SSHKey example_mapEC2TagsToMap (cloud_returning [stored_key]) ?rsa
             = Returns ((Some ?rsa, None), ?rsa)"
    by (simp add: find_SSHKey_def cloud_returning_def stored_key_def new_key_def
        clear_not_found_def actual_of_def ValueOf_def KeyTypeEd25519_def IsExistingKey_def
        example_mapEC2TagsToMap_def Let_def)
  have d': "fst (DescribeKeyPairs (cloud_returning [stored_key]) [Name ?rsa])
             = Some \<lparr>KeyPairs = [stored_key]\<rparr>"
    and ks': "KeyPairs \<lparr>KeyPairs = [stored_key]\<rparr> = [stored_key]"
    by (simp_all add: cloud_returning_def)
  have s': "kp_KeyPairId stored_key = ID ?rsa" "kp_KeyFingerprint stored_key = KeyFingerprint ?rsa"
    by (simp_all add: stored_key_def new_key_def)
  have rsa: "ValueOf (kp_KeyType stored_key) \<noteq> KeyTypeEd25519"
    by (simp add: stored_key_def ValueOf_def KeyTypeEd25519_def)
  note q4 = find_converged_and_create [where m = example_mapEC2TagsToMap
      and ts = example_EC2TagSpecification and cloud = "cloud_returning [stored_key]"
      and e = "new_key\<lparr>KeyFingerprint := None\<rparr>" and ec = ?rsa
      and calls = "[ImportKeyPairCall ?rsa_request]" and cloudc = "cloud_returning [stored_key]"
      and ac = ?rsa and errc = None and ec' = ?rsa and rc = "\<lparr>KeyPairs = [stored_key]\<rparr>"
      and kc = stored_key,
      THEN conjunct2, THEN conjunct2, THEN conjunct2, THEN conjunct1, THEN mp,
      OF conjI [OF k' conjI [OF f' conjI [OF d' conjI [OF ks' conjI [OF s'(1) s'(2)]]]]],
      THEN conjunct2, THEN conjunct2, THEN conjunct2, THEN mp, OF rsa]
  from q4 have pk: "PublicKey ?rsa = Some (NewStringResource ''ssh-rsa AAAAB3NzaC1yc2E'')"
    by (simp add: new_key_def)
  let ?shared = "tagged_key\<lparr>Shared := True\<rparr>"
  have fs: "find_SSHKey example_mapEC2TagsToMap (cloud_returning [stored_key]) ?shared
              = Returns ((Some ?shared, None), ?shared)"
    by (simp add: find_SSHKey_def cloud_returning_def stored_key_def tagged_key_def
        clear_not_found_def actual_of_def ValueOf_def KeyTypeEd25519_def IsExistingKey_def
        Let_def)
  have ds: "fst (DescribeKeyPairs (cloud_returning [stored_key]) [Name ?shared])
             = Some \<lparr>KeyPairs = [stored_key]\<rparr>"
    by (simp add: cloud_returning_def)
  have vs: "ValueOf (normalized_fingerprint stored_key) = ValueOf (KeyFingerprint ?shared)"
    by (simp add: normalized_fingerprint_def stored_key_def tagged_key_def ValueOf_def
        KeyTypeEd25519_def)
  have sh: "Shared ?shared" by simp
  note q1 = find_converged_and_create [where m = example_mapEC2TagsToMap
      and cloud = "cloud_returning [stored_key]" and e = ?shared and a = ?shared and err = None
      and e' = ?shared and r = "\<lparr>KeyPairs = [stored_key]\<rparr>" and k = stored_key,
      THEN conjunct1, THEN mp, OF conjI [OF fs conjI [OF ds conjI [OF ks' vs]]],
      THEN conjunct2, THEN conjunct2, THEN mp, OF sh]
  from q1 have ts: "Tags ?shared = Tags tagged_key" by simp
  from e25519 f d c v b k f2 p1 p3 k' f' rsa s' pk fs vs sh ts show ?thesis
    by (intro conjI)
qed

text \<open>
  C3 as stated fails. After a successful create of an Ed25519 key, the fingerprint that
  createKeypair stored is the backend's raw one, while find on that task, against the
  backend that holds the key pair, reports the normalized one: the fingerprints differ,
  the actual has no PublicKey, and the change-set between the actual and the task is
  not empty. And a task whose fingerprint is the stored one but whose tags are not on
  the stored key pair does not get an empty change-set either.
\<close>

theorem createKeypair_ed25519_counterexample:
  "createKeypair example_EC2TagSpecification cloud_ed25519 new_ed25519_key
     = Returns (None,
                new_ed25519_key\<lparr>KeyFingerprint := Some ''nThbg6kXUpJWGl7E1IGOCspRomTxdCARLviKw6E5SY8='',
                                ID := Some ''key-0e4f5a6b''\<rparr>,
                [ImportKeyPairCall
                   \<lparr>in_KeyName = Some ''admin-ed25519'',
                    in_TagSpecifications = [],
                    in_PublicKeyMaterial = Some ''ssh-ed25519 AAAAC3NzaC1lZDI1NTE5''\<rparr>])
   \<and> find_SSHKey example_mapEC2TagsToMap cloud_ed25519
        (new_ed25519_key\<lparr>KeyFingerprint := Some ''nThbg6kXUpJWGl7E1IGOCspRomTxdCARLviKw6E5SY8='',
                         ID := Some ''key-0e4f5a6b''\<rparr>)
       = Returns ((Some (new_ed25519_key\<lparr>ID := Some ''key-0e4f5a6b'', PublicKey := None\<rparr>), None),
                  new_ed25519_key\<lparr>KeyFingerprint := Some ''nThbg6kXUpJWGl7E1IGOCspRomTxdCARLviKw6E5SY8='',
                                  ID := Some ''key-0e4f5a6b''\<rparr>)
   \<and> KeyFingerprint (new_ed25519_key\<lparr>ID := Some ''key-0e4f5a6b'', PublicKey := None\<rparr>)
       = Some ''SHA256:nThbg6kXUpJWGl7E1IGOCspRomTxdCARLviKw6E5SY8''
   \<and> KeyFingerprint (new_ed25519_key\<lparr>ID := Some ''key-0e4f5a6b'', PublicKey := None\<rparr>)
       \<noteq> KeyFingerprint
           (new_ed25519_key\<lparr>KeyFingerprint := Some ''nThbg6kXUpJWGl7E1IGOCspRomTxdCARLviKw6E5SY8='',
                            ID := Some ''key-0e4f5a6b''\<rparr>)
   \<and> PublicKey (BuildChanges
          (new_ed25519_key\<lparr>ID := Some ''key-0e4f5a6b'', PublicKey := None\<rparr>)
          (new_ed25519_key\<lparr>KeyFingerprint := Some ''nThbg6kXUpJWGl7E1IGOCspRomTxdCARLviKw6E5SY8='',
                           ID := Some ''key-0e4f5a6b''\<rparr>))
       = Some (NewStringResource ''ssh-ed25519 AAAAC3NzaC1lZDI1NTE5'')
   \<and> BuildChanges
          (new_ed25519_key\<lparr>ID := Some ''key-0e4f5a6b'', PublicKey := None\<rparr>)
          (new_ed25519_key\<lparr>KeyFingerprint := Some ''nThbg6kXUpJWGl7E1IGOCspRomTxdCARLviKw6E5SY8='',
                           ID := Some ''key-0e4f5a6b''\<rparr>)
       \<noteq> no_changes
   \<and> normalized_fingerprint stored_key = KeyFingerprint tagged_key
   \<and> find_SSHKey example_mapEC2TagsToMap (cloud_returning [stored_key]) tagged_key
       = Returns ((Some (tagged_key\<lparr>Tags := Mapping.empty\<rparr>), None), tagged_key)
   \<and> Tags (BuildChanges (tagged_key\<lparr>Tags := Mapping.empty\<rparr>) tagged_key) = Tags tagged_key
   \<and> BuildChanges (tagged_key\<lparr>Tags := Mapping.empty\<rparr>) tagged_key \<noteq> no_changes"
proof -
  let ?created = "new_ed25519_key\<lparr>KeyFingerprint := Some ''nThbg6kXUpJWGl7E1IGOCspRomTxdCARLviKw6E5SY8='',
                                  ID := Some ''key-0e4f5a6b''\<rparr>"
  let ?reported = "new_ed25519_key\<lparr>ID := Some ''key-0e4f5a6b'', PublicKey := None\<rparr>"
  let ?request = "\<lparr>in_KeyName = Some ''admin-ed25519'', in_TagSpecifications = [],
                    in_PublicKeyMaterial = Some ''ssh-ed25519 AAAAC3NzaC1lZDI1NTE5''\<rparr>"
  let ?untagged = "tagged_key\<lparr>Tags := Mapping.empty\<rparr>"
  have trim: "TrimRight ''nThbg6kXUpJWGl7E1IGOCspRomTxdCARLviKw6E5SY8='' ''=''
                = ''nThbg6kXUpJWGl7E1IGOCspRomTxdCARLviKw6E5SY8''"
    by (simp add: TrimRight_def)
  have k: "createKeypair example_EC2TagSpecification cloud_ed25519 new_ed25519_key
           = Returns (None, ?created, [ImportKeyPairCall ?request])"
    by (simp add: createKeypair_def cloud_ed25519_def stored_ed25519_key_def new_ed25519_key_def
        ResourceAsBytes_def NewStringResource_def example_EC2TagSpecification_def Let_def)
  have f: "find_SSHKey example_mapEC2TagsToMap cloud_ed25519 ?created
             = Returns ((Some ?reported, None), ?created)"
    by (simp add: find_SSHKey_def cloud_ed25519_def stored_ed25519_key_def new_ed25519_key_def
        clear_not_found_def actual_of_def ValueOf_def PtrTo_def KeyTypeEd25519_def
        IsExistingKey_def example_mapEC2TagsToMap_def Let_def trim)
  have r: "KeyFingerprint ?reported = Some ''SHA256:nThbg6kXUpJWGl7E1IGOCspRomTxdCARLviKw6E5SY8''"
    and ne: "KeyFingerprint ?reported \<noteq> KeyFingerprint ?created"
    by (simp_all add: new_ed25519_key_def)
  have p: "PublicKey (BuildChanges ?reported ?created)
             = Some (NewStringResource ''ssh-ed25519 AAAAC3NzaC1lZDI1NTE5'')"
    by (simp add: BuildChanges_def new_ed25519_key_def)
  have b: "BuildChanges ?reported ?created \<noteq> no_changes"
  proof
    assume "BuildChanges ?reported ?created = no_changes"
    then have "PublicKey (BuildChanges ?reported ?created) = PublicKey no_changes" by simp
    with p show False by (simp add: no_changes_def)
  qed
  have nf: "normalized_fingerprint stored_key = KeyFingerprint tagged_key"
    by (simp add: normalized_fingerprint_def stored_key_def tagged_key_def ValueOf_def
        KeyTypeEd25519_def)
  have ut: "actual_of example_mapEC2TagsToMap tagged_key stored_key = ?untagged"
    by (simp add: actual_of_def stored_key_def tagged_key_def ValueOf_def KeyTypeEd25519_def
        example_mapEC2TagsToMap_def Let_def)
  have g: "find_SSHKey example_mapEC2TagsToMap (cloud_returning [stored_key]) tagged_key
             = Returns ((Some ?untagged, None), tagged_key)"
    unfolding ut [symmetric]
    by (simp add: find_SSHKey_def cloud_returning_def clear_not_found_def IsExistingKey_def
        Let_def) (simp add: actual_of_def stored_key_def tagged_key_def Let_def)
  have tg: "Tags (BuildChanges ?untagged tagged_key) = Tags tagged_key"
    using tagged_key_Tags by (auto simp: BuildChanges_def)
  have b': "BuildChanges ?untagged tagged_key \<noteq> no_changes"
  proof
    assume "BuildChanges ?untagged tagged_key = no_changes"
    then have "Tags (BuildChanges ?untagged tagged_key) = Tags no_changes" by simp
    with tg tagged_key_Tags show False by (simp add: no_changes_def)
  qed
  from k f r ne p b nf g tg b' show ?thesis by (intro conjI)
qed

subsection \<open>CheckChanges\<close>

text \<open>
  C2. For every actual \<open>a\<close>, expected \<open>e\<close> and change-set \<open>c\<close>, CheckChanges
  returns the "cannot change field" error for the field Name exactly when \<open>a\<close> is
  non-nil and \<open>c.Name\<close> is non-nil, it returns nothing else but nil, and for a nil
  \<open>a\<close> it returns nil whatever \<open>c\<close> is.
\<close>

theorem CheckChanges_immutable_Name:
  "(CheckChanges a e c = Some (CannotChangeField ''Name'')) = (a \<noteq> None \<and> Name c \<noteq> None)
   \<and> (CheckChanges a e c = None \<or> CheckChanges a e c = Some (CannotChangeField ''Name''))
   \<and> CheckChanges None e c = None"
  by (simp add: CheckChanges_def)

subsection \<open>Normalize\<close>

text \<open>
  C6, as amended. Normalize fills in KeyFingerprint, with the fingerprint computed from
  the content of PublicKey, exactly when KeyFingerprint is nil, PublicKey is non-nil,
  the key can be read and its fingerprint can be computed; when reading or computing
  fails it returns that error and leaves the task as it was, and when KeyFingerprint
  is set or PublicKey is nil it returns nil and leaves the task as it was. Whatever the
  case, no field other than KeyFingerprint changes, and the result is a function of
  the task and of the fingerprint routine alone.
\<close>

theorem Normalize_fills_fingerprint:
  "(KeyFingerprint e = None \<and> PublicKey e = Some r \<and> ResourceAsString r = (s, None)
      \<and> fp s = (v, None)
     \<longrightarrow> Normalize fp e = (None, e\<lparr>KeyFingerprint := Some v\<rparr>))
   \<and> (KeyFingerprint e = None \<and> PublicKey e = Some r \<and> ResourceAsString r = (s, Some x)
     \<longrightarrow> Normalize fp e = (Some (ErrorReadingSSHPublicKey x), e))
   \<and> (KeyFingerprint e = None \<and> PublicKey e = Some r \<and> ResourceAsString r = (s, None)
      \<and> fp s = (v, Some x)
     \<longrightarrow> Normalize fp e = (Some (ErrorComputingKeyFingerprint x), e))
   \<and> (KeyFingerprint e \<noteq> None \<or> PublicKey e = None \<longrightarrow> Normalize fp e = (None, e))
   \<and> (snd (Normalize fp e))\<lparr>KeyFingerprint := KeyFingerprint e\<rparr> = e
   \<and> (snd (Normalize fp e) \<noteq> e
        \<longrightarrow> KeyFingerprint e = None \<and> PublicKey e \<noteq> None \<and> fst (Normalize fp e) = None)
   \<and> (\<forall>e'. e' = e \<longrightarrow> Normalize fp e' = Normalize fp e)"
  by (auto simp: Normalize_def split: option.splits prod.splits)

theorem Normalize_fills_fingerprint_witness:
  "KeyFingerprint (new_key\<lparr>KeyFingerprint := None\<rparr>) = None
   \<and> PublicKey (new_key\<lparr>KeyFingerprint := None\<rparr>) = Some (NewStringResource ''ssh-rsa AAAAB3NzaC1yc2E'')
   \<and> ResourceAsString (NewStringResource ''ssh-rsa AAAAB3NzaC1yc2E'') = (''ssh-rsa AAAAB3NzaC1yc2E'', None)
   \<and> example_ComputeAWSKeyFingerprint ''ssh-rsa AAAAB3NzaC1yc2E''
       = (''c4:a6:ed:9a:a8:89:b9:e2:c3:9c:d6:63:eb:9c:71:57'', None)
   \<and> Normalize example_ComputeAWSKeyFingerprint (new_key\<lparr>KeyFingerprint := None\<rparr>) = (None, new_key)
   \<and> KeyFingerprint unreadable_key = None
   \<and> PublicKey unreadable_key
       = Some (Resource (Inl (OtherErr ''open id_rsa.pub: no such file or directory'')))
   \<and> ResourceAsString (Resource (Inl (OtherErr ''open id_rsa.pub: no such file or directory'')))
       = ([], Some (OtherErr ''open id_rsa.pub: no such file or directory''))
   \<and> Normalize example_ComputeAWSKeyFingerprint unreadable_key
       = (Some (ErrorReadingSSHPublicKey (OtherErr ''open id_rsa.pub: no such file or directory'')),
          unreadable_key)
   \<and> PublicKey (unreadable_key\<lparr>PublicKey := Some (NewStringResource ''ssh-rsa'')\<rparr>)
       = Some (NewStringResource ''ssh-rsa'')
   \<and> example_ComputeAWSKeyFingerprint ''ssh-rsa'' = ([], Some (OtherErr ''error parsing SSH public key''))
   \<and> Normalize example_ComputeAWSKeyFingerprint
        (unreadable_key\<lparr>PublicKey := Some (NewStringResource ''ssh-rsa'')\<rparr>)
       = (Some (ErrorComputingKeyFingerprint (OtherErr ''error parsing SSH public key'')),
          unreadable_key\<lparr>PublicKey := Some (NewStringResource ''ssh-rsa'')\<rparr>)
   \<and> KeyFingerprint new_key \<noteq> None
   \<and> Normalize example_ComputeAWSKeyFingerprint new_key = (None, new_key)
   \<and> PublicKey existing_key = None
   \<and> Normalize example_ComputeAWSKeyFingerprint existing_key = (None, existing_key)"
proof -
  let ?e = "new_key\<lparr>KeyFingerprint := None\<rparr>"
  let ?good = "NewStringResource ''ssh-rsa AAAAB3NzaC1yc2E''"
  let ?x = "OtherErr ''open id_rsa.pub: no such file or directory''"
  let ?y = "OtherErr ''error parsing SSH public key''"
  let ?g = "unreadable_key\<lparr>PublicKey := Some (NewStringResource ''ssh-rsa'')\<rparr>"
  note t = Normalize_fills_fingerprint [where fp = example_ComputeAWSKeyFingerprint]
  have h1: "KeyFingerprint ?e = None" and h2: "PublicKey ?e = Some ?good"
    and h3: "ResourceAsString ?good = (''ssh-rsa AAAAB3NzaC1yc2E'', None)"
    and h4: "example_ComputeAWSKeyFingerprint ''ssh-rsa AAAAB3NzaC1yc2E''
       = (''c4:a6:ed:9a:a8:89:b9:e2:c3:9c:d6:63:eb:9c:71:57'', None)"
    by (simp_all add: new_key_def ResourceAsString_def NewStringResource_def
        example_ComputeAWSKeyFingerprint_def)
  have u: "?e\<lparr>KeyFingerprint := Some ''c4:a6:ed:9a:a8:89:b9:e2:c3:9c:d6:63:eb:9c:71:57''\<rparr> = new_key"
    by (simp add: new_key_def)
  have c1: "Normalize example_ComputeAWSKeyFingerprint ?e = (None, new_key)"
    using t [where e = ?e and r = ?good and s = "''ssh-rsa AAAAB3NzaC1yc2E''"
        and v = "''c4:a6:ed:9a:a8:89:b9:e2:c3:9c:d6:63:eb:9c:71:57''",
        THEN conjunct1, THEN mp, OF conjI [OF h1 conjI [OF h2 conjI [OF h3 h4]]]] u
    by simp
  have r1: "KeyFingerprint unreadable_key = None"
    and r2: "PublicKey unreadable_key = Some (Resource (Inl ?x))"
    and r3: "ResourceAsString (Resource (Inl ?x)) = ([], Some ?x)"
    by (simp_all add: unreadable_key_def ResourceAsString_def)
  note c2 = t [where e = unreadable_key and r = "Resource (Inl ?x)" and s = "[]" and x = ?x,
      THEN conjunct2, THEN conjunct1, THEN mp, OF conjI [OF r1 conjI [OF r2 r3]]]
  have g1: "KeyFingerprint ?g = None"
    and g2: "PublicKey ?g = Some (NewStringResource ''ssh-rsa'')"
    and g3: "ResourceAsString (NewStringResource ''ssh-rsa'') = (''ssh-rsa'', None)"
    and g4: "example_ComputeAWSKeyFingerprint ''ssh-rsa'' = ([], Some ?y)"
    by (simp_all add: unreadable_key_def ResourceAsString_def NewStringResource_def
        example_ComputeAWSKeyFingerprint_def)
  note c3 = t [where e = ?g and r = "NewStringResource ''ssh-rsa''" and s = "''ssh-rsa''"
      and v = "[]" and x = ?y,
      THEN conjunct2, THEN conjunct2, THEN conjunct1, THEN mp,
      OF conjI [OF g1 conjI [OF g2 conjI [OF g3 g4]]]]
  have k1: "KeyFingerprint new_key \<noteq> None" and k2: "PublicKey existing_key = None"
    by (simp_all add: new_key_def existing_key_def)
  note c4 = t [where e = new_key, THEN conjunct2, THEN conjunct2, THEN conjunct2, THEN conjunct1,
      THEN mp, OF disjI1 [OF k1]]
  note c5 = t [where e = existing_key, THEN conjunct2, THEN conjunct2, THEN conjunct2,
      THEN conjunct1, THEN mp, OF disjI2 [OF k2]]
  from h1 h2 h3 h4 c1 r1 r2 r3 c2 g2 g4 c3 k1 c4 k2 c5 show ?thesis
    by (intro conjI)
qed

text \<open>
  C6 as stated fails: with a nil KeyFingerprint and a non-nil PublicKey that cannot be
  read, or whose content is not a public key, Normalize returns an error and fills
  nothing in.
\<close>

theorem Normalize_unreadable_key_counterexample:
  "KeyFingerprint unreadable_key = None \<and> PublicKey unreadable_key \<noteq> None
   \<and> Normalize example_ComputeAWSKeyFingerprint unreadable_key
       = (Some (ErrorReadingSSHPublicKey (OtherErr ''open id_rsa.pub: no such file or directory'')),
          unreadable_key)
   \<and> KeyFingerprint (new_key\<lparr>KeyFingerprint := None, PublicKey := Some (NewStringResource ''ssh-rsa'')\<rparr>)
       = None
   \<and> PublicKey (new_key\<lparr>KeyFingerprint := None, PublicKey := Some (NewStringResource ''ssh-rsa'')\<rparr>)
       \<noteq> None
   \<and> Normalize example_ComputeAWSKeyFingerprint
        (new_key\<lparr>KeyFingerprint := None, PublicKey := Some (NewStringResource ''ssh-rsa'')\<rparr>)
       = (Some (ErrorComputingKeyFingerprint (OtherErr ''error parsing SSH public key'')),
          new_key\<lparr>KeyFingerprint := None, PublicKey := Some (NewStringResource ''ssh-rsa'')\<rparr>)"
  by (simp add: unreadable_key_def new_key_def Normalize_def ResourceAsString_def
      NewStringResource_def example_ComputeAWSKeyFingerprint_def)

subsection \<open>RenderAWS\<close>

lemma createKeypair_ok:
  assumes "Name e = Some n"
    and "PublicKey e = None \<and> material = None
         \<or> (\<exists>r d. PublicKey e = Some r \<and> ResourceAsBytes r = (d, None) \<and> material = Some d)"
    and "request = \<lparr>in_KeyName = Some n,
                     in_TagSpecifications = ts ResourceTypeKeyPair (Tags e),
                     in_PublicKeyMaterial = material\<rparr>"
    and "ImportKeyPair cloud request = (Some out, None)"
  shows "createKeypair ts cloud e =
           Returns (None, e\<lparr>KeyFingerprint := out_KeyFingerprint out, ID := out_KeyPairId out\<rparr>,
                    [ImportKeyPairCall request])"
  using assms
  by (auto simp: createKeypair_def Let_def split: option.splits sum.splits prod.splits)

lemma createKeypair_err:
  assumes "Name e = Some n"
    and "PublicKey e = None \<and> material = None
         \<or> (\<exists>r d. PublicKey e = Some r \<and> ResourceAsBytes r = (d, None) \<and> material = Some d)"
    and "request = \<lparr>in_KeyName = Some n,
                     in_TagSpecifications = ts ResourceTypeKeyPair (Tags e),
                     in_PublicKeyMaterial = material\<rparr>"
    and "ImportKeyPair cloud request = (response, Some x)"
  shows "createKeypair ts cloud e =
           Returns (Some (ErrorCreatingSSHKey x), e, [ImportKeyPairCall request])"
  using assms
  by (auto simp: createKeypair_def Let_def split: option.splits sum.splits prod.splits)

lemma createKeypair_nil:
  assumes "Name e = Some n"
    and "PublicKey e = None \<and> material = None
         \<or> (\<exists>r d. PublicKey e = Some r \<and> ResourceAsBytes r = (d, None) \<and> material = Some d)"
    and "request = \<lparr>in_KeyName = Some n,
                     in_TagSpecifications = ts ResourceTypeKeyPair (Tags e),
                     in_PublicKeyMaterial = material\<rparr>"
    and "ImportKeyPair cloud request = (None, None)"
  shows "createKeypair ts cloud e = Panics"
  using assms
  by (auto simp: createKeypair_def Let_def split: option.splits sum.splits prod.splits)

text \<open>
  C5, as amended. RenderAWS does not read the change-set. With a nil actual it runs
  createKeypair: a nil Name panics; a public key that cannot be read returns that
  error with no backend call; otherwise there is one ImportKeyPair call carrying the
  Name, the tag specification of the Tags and the key material (none for a nil
  PublicKey), after which the fingerprint and ID of the answer are stored and nil is
  returned, or the error of the call is returned and the task left as it was, or, if
  answer and error are both nil, a panic. ImportKeyPair is called only when the actual
  is nil. With a non-nil actual, a key that is not shared gets one AddAWSTags call for
  its ID with all the Tags of the expected task, whose result is returned, or a panic
  if its ID is nil; a shared key gets no call and nil is returned.
\<close>

theorem RenderAWS_create_or_tag:
  "RenderAWS ts t a e changes = RenderAWS ts t a e changes'
   \<and> RenderAWS ts t None e changes = createKeypair ts (Cloud t) e
   \<and> (Name e = Some n
       \<and> (PublicKey e = None \<and> material = None
           \<or> (\<exists>r d. PublicKey e = Some r \<and> ResourceAsBytes r = (d, None) \<and> material = Some d))
       \<and> request = \<lparr>in_KeyName = Some n,
                     in_TagSpecifications = ts ResourceTypeKeyPair (Tags e),
                     in_PublicKeyMaterial = material\<rparr>
      \<longrightarrow> (ImportKeyPair (Cloud t) request = (Some out, None)
            \<longrightarrow> RenderAWS ts t None e changes =
                  Returns (None,
                           e\<lparr>KeyFingerprint := out_KeyFingerprint out, ID := out_KeyPairId out\<rparr>,
                           [ImportKeyPairCall request]))
          \<and> (ImportKeyPair (Cloud t) request = (response, Some x)
            \<longrightarrow> RenderAWS ts t None e changes =
                  Returns (Some (ErrorCreatingSSHKey x), e, [ImportKeyPairCall request]))
          \<and> (ImportKeyPair (Cloud t) request = (None, None)
            \<longrightarrow> RenderAWS ts t None e changes = Panics))
   \<and> (RenderAWS ts t a e changes = Returns (err, e', calls)
       \<and> ImportKeyPairCall request' \<in> set calls \<longrightarrow> a = None)
   \<and> (a \<noteq> None \<and> \<not> Shared e \<and> ID e = Some i
      \<longrightarrow> RenderAWS ts t a e changes =
            Returns (AddAWSTags t i (Tags e), e, [AddAWSTagsCall i (Tags e)]))
   \<and> (a \<noteq> None \<and> Shared e \<longrightarrow> RenderAWS ts t a e changes = Returns (None, e, []))
   \<and> (a \<noteq> None \<and> \<not> Shared e \<and> ID e = None \<longrightarrow> RenderAWS ts t a e changes = Panics)
   \<and> (Name e = None \<longrightarrow> RenderAWS ts t None e changes = Panics)
   \<and> (Name e = Some n \<and> PublicKey e = Some r' \<and> ResourceAsBytes r' = (d', Some x')
      \<longrightarrow> RenderAWS ts t None e changes =
            Returns (Some (ErrorRenderingSSHKeyPublicKey x'), e, []))"
proof (intro conjI impI)
  show "RenderAWS ts t a e changes = RenderAWS ts t a e changes'"
    by (simp add: RenderAWS_def)
  show "RenderAWS ts t None e changes = createKeypair ts (Cloud t) e"
    by (simp add: RenderAWS_def)
next
  assume h: "Name e = Some n
       \<and> (PublicKey e = None \<and> material = None
           \<or> (\<exists>r d. PublicKey e = Some r \<and> ResourceAsBytes r = (d, None) \<and> material = Some d))
       \<and> request = \<lparr>in_KeyName = Some n,
                     in_TagSpecifications = ts ResourceTypeKeyPair (Tags e),
                     in_PublicKeyMaterial = material\<rparr>"
  {
    assume "ImportKeyPair (Cloud t) request = (Some out, None)"
    then show "RenderAWS ts t None e changes =
                  Returns (None,
                           e\<lparr>KeyFingerprint := out_KeyFingerprint out, ID := out_KeyPairId out\<rparr>,
                           [ImportKeyPairCall request])"
      using h createKeypair_ok [of e n material request ts "Cloud t" out]
      by (simp add: RenderAWS_def)
  }
  {
    assume "ImportKeyPair (Cloud t) request = (response, Some x)"
    then show "RenderAWS ts t None e changes =
                  Returns (Some (ErrorCreatingSSHKey x), e, [ImportKeyPairCall request])"
      using h createKeypair_err [of e n material request ts "Cloud t" response x]
      by (simp add: RenderAWS_def)
  }
  {
    assume "ImportKeyPair (Cloud t) request = (None, None)"
    then show "RenderAWS ts t None e changes = Panics"
      using h createKeypair_nil [of e n material request ts "Cloud t"]
      by (simp add: RenderAWS_def)
  }
next
  assume h: "RenderAWS ts t a e changes = Returns (err, e', calls)
       \<and> ImportKeyPairCall request' \<in> set calls"
  show "a = None"
  proof (rule ccontr)
    assume "a \<noteq> None"
    with h show False
      by (auto simp: RenderAWS_def split: if_splits option.splits)
  qed
next
  assume "a \<noteq> None \<and> \<not> Shared e \<and> ID e = Some i"
  then show "RenderAWS ts t a e changes =
            Returns (AddAWSTags t i (Tags e), e, [AddAWSTagsCall i (Tags e)])"
    by (auto simp: RenderAWS_def)
next
  assume "a \<noteq> None \<and> Shared e"
  then show "RenderAWS ts t a e changes = Returns (None, e, [])"
    by (auto simp: RenderAWS_def)
next
  assume "a \<noteq> None \<and> \<not> Shared e \<and> ID e = None"
  then show "RenderAWS ts t a e changes = Panics"
    by (auto simp: RenderAWS_def)
next
  assume "Name e = None"
  then show "RenderAWS ts t None e changes = Panics"
    by (simp add: RenderAWS_def createKeypair_def)
next
  assume "Name e = Some n \<and> PublicKey e = Some r' \<and> ResourceAsBytes r' = (d', Some x')"
  then show "RenderAWS ts t None e changes =
            Returns (Some (ErrorRenderingSSHKeyPublicKey x'), e, [])"
    by (simp add: RenderAWS_def createKeypair_def Let_def)
qed


theorem RenderAWS_create_or_tag_witness:
  "Name (new_key\<lparr>KeyFingerprint := None\<rparr>) = Some ''kubernetes.minimal.example.com-c4:a6:ed''
   \<and> PublicKey (new_key\<lparr>KeyFingerprint := None\<rparr>) = Some (NewStringResource ''ssh-rsa AAAAB3NzaC1yc2E'')
   \<and> ResourceAsBytes (NewStringResource ''ssh-rsa AAAAB3NzaC1yc2E'') = (''ssh-rsa AAAAB3NzaC1yc2E'', None)
   \<and> ImportKeyPair (Cloud (api_target (cloud_returning [])))
        \<lparr>in_KeyName = Some ''kubernetes.minimal.example.com-c4:a6:ed'',
         in_TagSpecifications = example_EC2TagSpecification ResourceTypeKeyPair Mapping.empty,
         in_PublicKeyMaterial = Some ''ssh-rsa AAAAB3NzaC1yc2E''\<rparr>
       = (Some \<lparr>out_KeyFingerprint = Some ''c4:a6:ed:9a:a8:89:b9:e2:c3:9c:d6:63:eb:9c:71:57'',
                out_KeyPairId = Some ''key-0a1b2c3d''\<rparr>, None)
   \<and> RenderAWS example_EC2TagSpecification (api_target (cloud_returning [])) None
        (new_key\<lparr>KeyFingerprint := None\<rparr>) no_changes
       = Returns (None, new_key\<lparr>ID := Some ''key-0a1b2c3d''\<rparr>,
                  [ImportKeyPairCall
                     \<lparr>in_KeyName = Some ''kubernetes.minimal.example.com-c4:a6:ed'',
                      in_TagSpecifications = example_EC2TagSpecification ResourceTypeKeyPair Mapping.empty,
                      in_PublicKeyMaterial = Some ''ssh-rsa AAAAB3NzaC1yc2E''\<rparr>])
   \<and> Some tagged_key \<noteq> None \<and> \<not> Shared tagged_key \<and> ID tagged_key = Some ''key-0a1b2c3d''
   \<and> RenderAWS example_EC2TagSpecification (api_target (cloud_returning [stored_key]))
        (Some tagged_key) tagged_key no_changes
       = Returns (None, tagged_key, [AddAWSTagsCall ''key-0a1b2c3d'' (Tags tagged_key)])
   \<and> Shared existing_key
   \<and> RenderAWS example_EC2TagSpecification (api_target (cloud_returning [stored_key]))
        (Some existing_key) existing_key no_changes
       = Returns (None, existing_key, [])
   \<and> ImportKeyPair (Cloud (api_target (cloud_failing (AwsErr ''RequestLimitExceeded'' ''Request limit exceeded''))))
        \<lparr>in_KeyName = Some ''kubernetes.minimal.example.com-c4:a6:ed'',
         in_TagSpecifications = example_EC2TagSpecification ResourceTypeKeyPair Mapping.empty,
         in_PublicKeyMaterial = Some ''ssh-rsa AAAAB3NzaC1yc2E''\<rparr>
       = (None, Some (AwsErr ''RequestLimitExceeded'' ''Request limit exceeded''))
   \<and> RenderAWS example_EC2TagSpecification
        (api_target (cloud_failing (AwsErr ''RequestLimitExceeded'' ''Request limit exceeded''))) None
        (new_key\<lparr>KeyFingerprint := None\<rparr>) no_changes
       = Returns (Some (ErrorCreatingSSHKey (AwsErr ''RequestLimitExceeded'' ''Request limit exceeded'')),
                  new_key\<lparr>KeyFingerprint := None\<rparr>,
                  [ImportKeyPairCall
                     \<lparr>in_KeyName = Some ''kubernetes.minimal.example.com-c4:a6:ed'',
                      in_TagSpecifications = example_EC2TagSpecification ResourceTypeKeyPair Mapping.empty,
                      in_PublicKeyMaterial = Some ''ssh-rsa AAAAB3NzaC1yc2E''\<rparr>])
   \<and> ImportKeyPair (Cloud (api_target cloud_without_answer))
        \<lparr>in_KeyName = Some ''kubernetes.minimal.example.com-c4:a6:ed'',
         in_TagSpecifications = example_EC2TagSpecification ResourceTypeKeyPair Mapping.empty,
         in_PublicKeyMaterial = Some ''ssh-rsa AAAAB3NzaC1yc2E''\<rparr>
       = (None, None)
   \<and> RenderAWS example_EC2TagSpecification (api_target cloud_without_answer) None
        (new_key\<lparr>KeyFingerprint := None\<rparr>) no_changes = Panics
   \<and> Some tagged_key \<noteq> None \<and> \<not> Shared (tagged_key\<lparr>ID := None\<rparr>)
   \<and> ID (tagged_key\<lparr>ID := None\<rparr>) = None
   \<and> RenderAWS example_EC2TagSpecification (api_target (cloud_returning [stored_key]))
        (Some tagged_key) (tagged_key\<lparr>ID := None\<rparr>) no_changes = Panics
   \<and> Name (new_key\<lparr>Name := None\<rparr>) = None
   \<and> RenderAWS example_EC2TagSpecification (api_target (cloud_returning [])) None
        (new_key\<lparr>Name := None\<rparr>) no_changes = Panics
   \<and> Name unreadable_key = Some ''kubernetes.minimal.example.com-c4:a6:ed''
   \<and> PublicKey unreadable_key
       = Some (Resource (Inl (OtherErr ''open id_rsa.pub: no such file or directory'')))
   \<and> ResourceAsBytes (Resource (Inl (OtherErr ''open id_rsa.pub: no such file or directory'')))
       = ([], Some (OtherErr ''open id_rsa.pub: no such file or directory''))
   \<and> RenderAWS example_EC2TagSpecification (api_target (cloud_returning [])) None
        unreadable_key no_changes
       = Returns (Some (ErrorRenderingSSHKeyPublicKey
                          (OtherErr ''open id_rsa.pub: no such file or directory'')),
                  unreadable_key, [])"
proof -
  let ?e = "new_key\<lparr>KeyFingerprint := None\<rparr>"
  let ?lim = "AwsErr ''RequestLimitExceeded'' ''Request limit exceeded''"
  let ?x = "OtherErr ''open id_rsa.pub: no such file or directory''"
  let ?request = "\<lparr>in_KeyName = Some ''kubernetes.minimal.example.com-c4:a6:ed'',
         in_TagSpecifications = example_EC2TagSpecification ResourceTypeKeyPair Mapping.empty,
         in_PublicKeyMaterial = Some ''ssh-rsa AAAAB3NzaC1yc2E''\<rparr>"
  let ?out = "\<lparr>out_KeyFingerprint = Some ''c4:a6:ed:9a:a8:89:b9:e2:c3:9c:d6:63:eb:9c:71:57'',
                out_KeyPairId = Some ''key-0a1b2c3d''\<rparr>"
  have n: "Name ?e = Some ''kubernetes.minimal.example.com-c4:a6:ed''"
    and p: "PublicKey ?e = Some (NewStringResource ''ssh-rsa AAAAB3NzaC1yc2E'')"
    and b: "ResourceAsBytes (NewStringResource ''ssh-rsa AAAAB3NzaC1yc2E'')
              = (''ssh-rsa AAAAB3NzaC1yc2E'', None)"
    and tg: "Tags ?e = Mapping.empty"
    by (simp_all add: new_key_def ResourceAsBytes_def NewStringResource_def)
  have i: "ImportKeyPair (Cloud (api_target (cloud_returning []))) ?request = (Some ?out, None)"
    by (simp add: api_target_def cloud_returning_def)
  have m: "PublicKey ?e = None \<and> Some ''ssh-rsa AAAAB3NzaC1yc2E'' = None
           \<or> (\<exists>r d. PublicKey ?e = Some r \<and> ResourceAsBytes r = (d, None)
                  \<and> Some ''ssh-rsa AAAAB3NzaC1yc2E'' = Some d)"
    using p b by blast
  have rq: "?request = \<lparr>in_KeyName = Some ''kubernetes.minimal.example.com-c4:a6:ed'',
         in_TagSpecifications = example_EC2TagSpecification ResourceTypeKeyPair (Tags ?e),
         in_PublicKeyMaterial = Some ''ssh-rsa AAAAB3NzaC1yc2E''\<rparr>"
    using tg by simp
  have u: "?e\<lparr>KeyFingerprint := out_KeyFingerprint ?out, ID := out_KeyPairId ?out\<rparr>
             = new_key\<lparr>ID := Some ''key-0a1b2c3d''\<rparr>"
    by (simp add: new_key_def)
  note t = RenderAWS_create_or_tag [where ts = example_EC2TagSpecification
      and changes = no_changes and changes' = no_changes]
  note create = t [where t = "api_target (cloud_returning [])" and e = ?e
      and n = "''kubernetes.minimal.example.com-c4:a6:ed''"
      and material = "Some ''ssh-rsa AAAAB3NzaC1yc2E''" and request = ?request and out = ?out,
      THEN conjunct2, THEN conjunct2, THEN conjunct1, THEN mp,
      OF conjI [OF n conjI [OF m rq]], THEN conjunct1, THEN mp, OF i]
  have c1: "RenderAWS example_EC2TagSpecification (api_target (cloud_returning [])) None ?e no_changes
       = Returns (None, new_key\<lparr>ID := Some ''key-0a1b2c3d''\<rparr>, [ImportKeyPairCall ?request])"
    using create u by simp
  have h2: "Some tagged_key \<noteq> None \<and> \<not> Shared tagged_key \<and> ID tagged_key = Some ''key-0a1b2c3d''"
    by (simp add: tagged_key_def)
  have a2: "AddAWSTags (api_target (cloud_returning [stored_key])) ''key-0a1b2c3d'' (Tags tagged_key)
              = None"
    by (simp add: api_target_def)
  from t [where t = "api_target (cloud_returning [stored_key])" and a = "Some tagged_key"
      and e = tagged_key and i = "''key-0a1b2c3d''",
      THEN conjunct2, THEN conjunct2, THEN conjunct2, THEN conjunct2, THEN conjunct1, THEN mp, OF h2]
  have c2: "RenderAWS example_EC2TagSpecification (api_target (cloud_returning [stored_key]))
        (Some tagged_key) tagged_key no_changes
       = Returns (None, tagged_key, [AddAWSTagsCall ''key-0a1b2c3d'' (Tags tagged_key)])"
    using a2 by simp
  have h3: "Some existing_key \<noteq> None \<and> Shared existing_key"
    by (simp add: existing_key_def)
  from t [where t = "api_target (cloud_returning [stored_key])" and a = "Some existing_key"
      and e = existing_key,
      THEN conjunct2, THEN conjunct2, THEN conjunct2, THEN conjunct2, THEN conjunct2,
      THEN conjunct1, THEN mp, OF h3]
  have c3: "RenderAWS example_EC2TagSpecification (api_target (cloud_returning [stored_key]))
        (Some existing_key) existing_key no_changes
       = Returns (None, existing_key, [])" .
  have i4: "ImportKeyPair (Cloud (api_target (cloud_failing ?lim))) ?request = (None, Some ?lim)"
    by (simp add: api_target_def cloud_failing_def)
  note c4 = t [where t = "api_target (cloud_failing ?lim)" and e = ?e
      and n = "''kubernetes.minimal.example.com-c4:a6:ed''"
      and material = "Some ''ssh-rsa AAAAB3NzaC1yc2E''" and request = ?request
      and response = None and x = ?lim,
      THEN conjunct2, THEN conjunct2, THEN conjunct1, THEN mp,
      OF conjI [OF n conjI [OF m rq]], THEN conjunct2, THEN conjunct1, THEN mp, OF i4]
  have i5: "ImportKeyPair (Cloud (api_target cloud_without_answer)) ?request = (None, None)"
    by (simp add: api_target_def cloud_without_answer_def)
  note c5 = t [where t = "api_target cloud_without_answer" and e = ?e
      and n = "''kubernetes.minimal.example.com-c4:a6:ed''"
      and material = "Some ''ssh-rsa AAAAB3NzaC1yc2E''" and request = ?request,
      THEN conjunct2, THEN conjunct2, THEN conjunct1, THEN mp,
      OF conjI [OF n conjI [OF m rq]], THEN conjunct2, THEN conjunct2, THEN mp, OF i5]
  have h6: "Some tagged_key \<noteq> None \<and> \<not> Shared (tagged_key\<lparr>ID := None\<rparr>)
            \<and> ID (tagged_key\<lparr>ID := None\<rparr>) = None"
    by (simp add: tagged_key_def)
  note c6 = t [where t = "api_target (cloud_returning [stored_key])" and a = "Some tagged_key"
      and e = "tagged_key\<lparr>ID := None\<rparr>",
      THEN conjunct2, THEN conjunct2, THEN conjunct2, THEN conjunct2, THEN conjunct2,
      THEN conjunct2, THEN conjunct1, THEN mp, OF h6]
  have h7: "Name (new_key\<lparr>Name := None\<rparr>) = None"
    by simp
  note c7 = t [where t = "api_target (cloud_returning [])" and e = "new_key\<lparr>Name := None\<rparr>",
      THEN conjunct2, THEN conjunct2, THEN conjunct2, THEN conjunct2, THEN conjunct2,
      THEN conjunct2, THEN conjunct2, THEN conjunct1, THEN mp, OF h7]
  have h8: "Name unreadable_key = Some ''kubernetes.minimal.example.com-c4:a6:ed''"
    and h9: "PublicKey unreadable_key = Some (Resource (Inl ?x))"
    and h10: "ResourceAsBytes (Resource (Inl ?x)) = ([], Some ?x)"
    by (simp_all add: unreadable_key_def ResourceAsBytes_def)
  note c8 = t [where t = "api_target (cloud_returning [])" and e = unreadable_key
      and n = "''kubernetes.minimal.example.com-c4:a6:ed''" and r' = "Resource (Inl ?x)"
      and d' = "[]" and x' = ?x,
      THEN conjunct2, THEN conjunct2, THEN conjunct2, THEN conjunct2, THEN conjunct2,
      THEN conjunct2, THEN conjunct2, THEN conjunct2, THEN mp,
      OF conjI [OF h8 conjI [OF h9 h10]]]
  from n p b i c1 h2 c2 h3 c3 i4 c4 i5 c5 h6 c6 h7 c7 h8 h9 h10 c8 show ?thesis
    by (intro conjI) simp_all
qed

text \<open>
  C5 as stated fails: with an existing key pair and a change-set that holds only a
  fingerprint (no Tags), RenderAWS still writes the Tags of the expected task to the
  backend, so the update is not restricted to the fields of the change-set; a shared
  key whose actual is nil is imported like any other key; and with a nil actual and a
  public key that cannot be read, or a nil Name, no ImportKeyPair call is made.
\<close>

theorem RenderAWS_ignores_changes_counterexample:
  "Tags (no_changes\<lparr>KeyFingerprint := Some ''c4:a6:ed:9a:a8:89:b9:e2:c3:9c:d6:63:eb:9c:71:57''\<rparr>)
     = Mapping.empty
   \<and> Tags tagged_key \<noteq> Mapping.empty
   \<and> RenderAWS example_EC2TagSpecification (api_target (cloud_returning [stored_key]))
        (Some (tagged_key\<lparr>KeyFingerprint := Some ''00:11:22:33:44:55:66:77:88:99:aa:bb:cc:dd:ee:ff'',
                           PublicKey := None\<rparr>))
        tagged_key
        (no_changes\<lparr>KeyFingerprint := Some ''c4:a6:ed:9a:a8:89:b9:e2:c3:9c:d6:63:eb:9c:71:57''\<rparr>)
       = Returns (None, tagged_key, [AddAWSTagsCall ''key-0a1b2c3d'' (Tags tagged_key)])
   \<and> Shared (new_key\<lparr>Shared := True\<rparr>)
   \<and> RenderAWS example_EC2TagSpecification (api_target (cloud_returning [])) None
        (new_key\<lparr>Shared := True\<rparr>) (new_key\<lparr>Shared := True\<rparr>)
       = Returns (None, new_key\<lparr>Shared := True, ID := Some ''key-0a1b2c3d''\<rparr>,
                  [ImportKeyPairCall
                     \<lparr>in_KeyName = Some ''kubernetes.minimal.example.com-c4:a6:ed'',
                      in_TagSpecifications = [],
                      in_PublicKeyMaterial = Some ''ssh-rsa AAAAB3NzaC1yc2E''\<rparr>])
   \<and> RenderAWS example_EC2TagSpecification (api_target (cloud_returning [])) None
        unreadable_key unreadable_key
       = Returns (Some (ErrorRenderingSSHKeyPublicKey
                          (OtherErr ''open id_rsa.pub: no such file or directory'')),
                  unreadable_key, [])
   \<and> RenderAWS example_EC2TagSpecification (api_target (cloud_returning [])) None
        (new_key\<lparr>Name := None\<rparr>) (new_key\<lparr>Name := None\<rparr>) = Panics"
proof -
  have "RenderAWS example_EC2TagSpecification (api_target (cloud_returning [])) None
        (new_key\<lparr>Name := None\<rparr>) (new_key\<lparr>Name := None\<rparr>) = Panics"
    by (simp add: RenderAWS_def createKeypair_def)
  moreover
  have "RenderAWS example_EC2TagSpecification (api_target (cloud_returning [])) None
        unreadable_key unreadable_key
       = Returns (Some (ErrorRenderingSSHKeyPublicKey
                          (OtherErr ''open id_rsa.pub: no such file or directory'')),
                  unreadable_key, [])"
    by (simp add: RenderAWS_def createKeypair_def api_target_def unreadable_key_def
        ResourceAsBytes_def Let_def)
  moreover
  have "RenderAWS example_EC2TagSpecification (api_target (cloud_returning [stored_key]))
        (Some (tagged_key\<lparr>KeyFingerprint := Some ''00:11:22:33:44:55:66:77:88:99:aa:bb:cc:dd:ee:ff'',
                           PublicKey := None\<rparr>))
        tagged_key
        (no_changes\<lparr>KeyFingerprint := Some ''c4:a6:ed:9a:a8:89:b9:e2:c3:9c:d6:63:eb:9c:71:57''\<rparr>)
       = Returns (None, tagged_key, [AddAWSTagsCall ''key-0a1b2c3d'' (Tags tagged_key)])"
    by (simp add: RenderAWS_def api_target_def tagged_key_def)
  moreover have "Tags (no_changes\<lparr>KeyFingerprint :=
      Some ''c4:a6:ed:9a:a8:89:b9:e2:c3:9c:d6:63:eb:9c:71:57''\<rparr>) = Mapping.empty"
    by (simp add: no_changes_def)
  moreover have "RenderAWS example_EC2TagSpecification (api_target (cloud_returning [])) None
        (new_key\<lparr>Shared := True\<rparr>) (new_key\<lparr>Shared := True\<rparr>)
       = Returns (None, new_key\<lparr>Shared := True, ID := Some ''key-0a1b2c3d''\<rparr>,
                  [ImportKeyPairCall
                     \<lparr>in_KeyName = Some ''kubernetes.minimal.example.com-c4:a6:ed'',
                      in_TagSpecifications = [],
                      in_PublicKeyMaterial = Some ''ssh-rsa AAAAB3NzaC1yc2E''\<rparr>])"
    by (simp add: RenderAWS_def createKeypair_def api_target_def cloud_returning_def new_key_def
        ResourceAsBytes_def NewStringResource_def example_EC2TagSpecification_def Let_def)
  ultimately show ?thesis using tagged_key_Tags by simp
qed

subsection \<open>RenderTerraform and TerraformLink\<close>

lemma Replace_colon_no_colon: "CHR '':'' \<notin> set (Replace_colon n)"
  by (simp add: Replace_colon_def)

lemma Replace_colon_subseq: "subseq (Replace_colon n) n"
  by (simp add: Replace_colon_def)

lemma Replace_colon_others: "c \<noteq> CHR '':'' \<Longrightarrow> count_list (Replace_colon n) c = count_list n c"
  by (induction n) (simp_all add: Replace_colon_def)

text \<open>
  C8, as amended. For a task with a non-nil PublicKey and a non-nil Name, for which the
  target adds the file resource without an error, RenderTerraform emits exactly one
  resource block: of type \<open>aws_key_pair\<close>, named by the Name with every \<open>:\<close> removed
  (and nothing else removed), carrying the key name, the literal the target gave for
  the public key file and the tags; it returns what \<open>RenderResource\<close> returns.
  TerraformLink then returns the property reference \<open>aws_key_pair.<name>.id\<close>. When
  the target fails to add the file resource, RenderTerraform returns that error and
  emits no block. For a task with a nil PublicKey RenderTerraform emits nothing and
  returns nil, and for such a task with a non-nil Name TerraformLink returns the
  literal Name.
\<close>

theorem RenderTerraform_block_and_link:
  "(PublicKey e = Some r \<and> Name e = Some n
      \<and> AddFileResource t ''aws_key_pair'' (Replace_colon n) ''public_key'' (Some r) False = (lit, None)
     \<longrightarrow> RenderTerraform t a e changes =
           Returns (RenderResource t ''aws_key_pair'' (Replace_colon n)
                      \<lparr>tf_Name = Some n, tf_PublicKey = lit, tf_Tags = Tags e\<rparr>,
                    [AddFileResourceCall ''aws_key_pair'' (Replace_colon n) ''public_key'' (Some r) False,
                     RenderResourceCall ''aws_key_pair'' (Replace_colon n)
                       \<lparr>tf_Name = Some n, tf_PublicKey = lit, tf_Tags = Tags e\<rparr>])
         \<and> TerraformLink e = Returns (Some (LiteralProperty ''aws_key_pair'' (Replace_colon n) ''id''))
         \<and> CHR '':'' \<notin> set (Replace_colon n) \<and> subseq (Replace_colon n) n
         \<and> (\<forall>c. c \<noteq> CHR '':'' \<longrightarrow> count_list (Replace_colon n) c = count_list n c))
   \<and> (PublicKey e = Some r \<and> Name e = Some n
      \<and> AddFileResource t ''aws_key_pair'' (Replace_colon n) ''public_key'' (Some r) False = (lit, Some x)
     \<longrightarrow> RenderTerraform t a e changes =
           Returns (Some (ErrorRenderingPublicKey x),
                    [AddFileResourceCall ''aws_key_pair'' (Replace_colon n) ''public_key'' (Some r) False]))
   \<and> (PublicKey e = None \<longrightarrow> RenderTerraform t a e changes = Returns (None, []))
   \<and> (PublicKey e = None \<and> Name e = Some n
     \<longrightarrow> TerraformLink e = Returns (Some (LiteralFromStringValue n)))"
  by (simp add: RenderTerraform_def TerraformLink_def IsExistingKey_def NoSSHKey_def Let_def
      Replace_colon_no_colon Replace_colon_subseq Replace_colon_others)

theorem RenderTerraform_block_and_link_witness:
  "PublicKey new_key = Some (NewStringResource ''ssh-rsa AAAAB3NzaC1yc2E'')
   \<and> Name new_key = Some ''kubernetes.minimal.example.com-c4:a6:ed''
   \<and> Replace_colon ''kubernetes.minimal.example.com-c4:a6:ed'' = ''kubernetes.minimal.example.com-c4a6ed''
   \<and> AddFileResource terraform_target ''aws_key_pair'' ''kubernetes.minimal.example.com-c4a6ed''
        ''public_key'' (Some (NewStringResource ''ssh-rsa AAAAB3NzaC1yc2E'')) False
       = (Some (LiteralFunctionExpression ''file''
            [''${path.module}/data/aws_key_pair_kubernetes.minimal.example.com-c4a6ed_public_key'']),
          None)
   \<and> RenderTerraform terraform_target None new_key no_changes =
        Returns (None,
          [AddFileResourceCall ''aws_key_pair'' ''kubernetes.minimal.example.com-c4a6ed''
             ''public_key'' (Some (NewStringResource ''ssh-rsa AAAAB3NzaC1yc2E'')) False,
           RenderResourceCall ''aws_key_pair'' ''kubernetes.minimal.example.com-c4a6ed''
             \<lparr>tf_Name = Some ''kubernetes.minimal.example.com-c4:a6:ed'',
              tf_PublicKey = Some (LiteralFunctionExpression ''file''
                [''${path.module}/data/aws_key_pair_kubernetes.minimal.example.com-c4a6ed_public_key'']),
              tf_Tags = Mapping.empty\<rparr>])
   \<and> TerraformLink new_key
       = Returns (Some (LiteralProperty ''aws_key_pair'' ''kubernetes.minimal.example.com-c4a6ed'' ''id''))
   \<and> PublicKey unreadable_key
       = Some (Resource (Inl (OtherErr ''open id_rsa.pub: no such file or directory'')))
   \<and> RenderTerraform terraform_target None unreadable_key no_changes =
        Returns (Some (ErrorRenderingPublicKey (OtherErr ''open id_rsa.pub: no such file or directory'')),
          [AddFileResourceCall ''aws_key_pair'' ''kubernetes.minimal.example.com-c4a6ed''
             ''public_key'' (Some (Resource (Inl (OtherErr ''open id_rsa.pub: no such file or directory''))))
             False])
   \<and> PublicKey existing_key = None \<and> Name existing_key = Some ''my-existing-key''
   \<and> RenderTerraform terraform_target None existing_key no_changes = Returns (None, [])
   \<and> TerraformLink existing_key = Returns (Some (LiteralFromStringValue ''my-existing-key''))"
proof -
  let ?n = "''kubernetes.minimal.example.com-c4:a6:ed''"
  let ?r = "NewStringResource ''ssh-rsa AAAAB3NzaC1yc2E''"
  let ?bad = "Resource (Inl (OtherErr ''open id_rsa.pub: no such file or directory''))"
  let ?lit = "Some (LiteralFunctionExpression ''file''
            [''${path.module}/data/aws_key_pair_kubernetes.minimal.example.com-c4a6ed_public_key''])"
  have rc: "Replace_colon ?n = ''kubernetes.minimal.example.com-c4a6ed''"
    by (simp add: Replace_colon_def)
  have p: "PublicKey new_key = Some ?r" and n: "Name new_key = Some ?n"
    and tg: "Tags new_key = Mapping.empty"
    by (simp_all add: new_key_def)
  have f: "AddFileResource terraform_target ''aws_key_pair'' (Replace_colon ?n)
        ''public_key'' (Some ?r) False = (?lit, None)"
    by (simp add: rc terraform_target_def NewStringResource_def)
  have rr: "RenderResource terraform_target ''aws_key_pair'' (Replace_colon ?n)
              \<lparr>tf_Name = Some ?n, tf_PublicKey = ?lit, tf_Tags = Tags new_key\<rparr> = None"
    by (simp add: terraform_target_def)
  note t = RenderTerraform_block_and_link [where t = terraform_target and a = None
      and changes = no_changes]
  note c1 = t [where e = new_key and r = ?r and n = ?n and lit = ?lit,
      THEN conjunct1, THEN mp, OF conjI [OF p conjI [OF n f]]]
  have pb: "PublicKey unreadable_key = Some ?bad" and nb: "Name unreadable_key = Some ?n"
    by (simp_all add: unreadable_key_def)
  have fb: "AddFileResource terraform_target ''aws_key_pair'' (Replace_colon ?n)
        ''public_key'' (Some ?bad) False
          = (None, Some (OtherErr ''open id_rsa.pub: no such file or directory''))"
    by (simp add: terraform_target_def)
  note c2 = t [where e = unreadable_key and r = ?bad and n = ?n and lit = None
      and x = "OtherErr ''open id_rsa.pub: no such file or directory''",
      THEN conjunct2, THEN conjunct1, THEN mp, OF conjI [OF pb conjI [OF nb fb]]]
  have pe: "PublicKey existing_key = None" and ne: "Name existing_key = Some ''my-existing-key''"
    by (simp_all add: existing_key_def)
  note c3 = t [where e = existing_key, THEN conjunct2, THEN conjunct2, THEN conjunct1, THEN mp, OF pe]
  note c4 = t [where e = existing_key and n = "''my-existing-key''",
      THEN conjunct2, THEN conjunct2, THEN conjunct2, THEN mp, OF conjI [OF pe ne]]
  from c1 have c1a: "RenderTerraform terraform_target None new_key no_changes =
        Returns (None,
          [AddFileResourceCall ''aws_key_pair'' ''kubernetes.minimal.example.com-c4a6ed''
             ''public_key'' (Some ?r) False,
           RenderResourceCall ''aws_key_pair'' ''kubernetes.minimal.example.com-c4a6ed''
             \<lparr>tf_Name = Some ?n, tf_PublicKey = ?lit, tf_Tags = Mapping.empty\<rparr>])"
    and c1b: "TerraformLink new_key
       = Returns (Some (LiteralProperty ''aws_key_pair'' ''kubernetes.minimal.example.com-c4a6ed'' ''id''))"
    using rr tg unfolding rc by simp_all
  from f have f': "AddFileResource terraform_target ''aws_key_pair''
        ''kubernetes.minimal.example.com-c4a6ed'' ''public_key'' (Some ?r) False = (?lit, None)"
    unfolding rc .
  from c2 have c2a: "RenderTerraform terraform_target None unreadable_key no_changes =
        Returns (Some (ErrorRenderingPublicKey (OtherErr ''open id_rsa.pub: no such file or directory'')),
          [AddFileResourceCall ''aws_key_pair'' ''kubernetes.minimal.example.com-c4a6ed''
             ''public_key'' (Some ?bad) False])"
    unfolding rc .
  from p n rc f' c1a c1b pb c2a pe ne c3 c4 show ?thesis
    by (intro conjI)
qed

text \<open>
  C8 as stated fails: a task with a non-nil PublicKey and a nil Name makes
  RenderTerraform (and TerraformLink) panic, so that no block is emitted and no handle
  returned; and when the target cannot add the public key file, RenderTerraform
  returns the error without a call of \<open>RenderResource\<close>.
\<close>

theorem RenderTerraform_nil_Name_counterexample:
  "PublicKey (new_key\<lparr>Name := None\<rparr>) \<noteq> None
   \<and> RenderTerraform terraform_target None (new_key\<lparr>Name := None\<rparr>) no_changes = Panics
   \<and> TerraformLink (new_key\<lparr>Name := None\<rparr>) = Panics
   \<and> PublicKey unreadable_key \<noteq> None
   \<and> RenderTerraform terraform_target None unreadable_key no_changes =
        Returns (Some (ErrorRenderingPublicKey (OtherErr ''open id_rsa.pub: no such file or directory'')),
          [AddFileResourceCall ''aws_key_pair'' ''kubernetes.minimal.example.com-c4a6ed''
             ''public_key''
             (Some (Resource (Inl (OtherErr ''open id_rsa.pub: no such file or directory''))))
             False])"
  by (simp add: new_key_def unreadable_key_def RenderTerraform_def TerraformLink_def
      IsExistingKey_def NoSSHKey_def terraform_target_def Replace_colon_def)

text \<open>
  C10. With ID, Name, PublicKey and KeyFingerprint all nil, TerraformLink returns nil.
  TerraformLink panics exactly when Name is nil and one of the other three is not;
  RenderTerraform panics exactly when PublicKey is non-nil and Name is nil. So neither
  panics for a task whose Name is non-nil.
\<close>

theorem Terraform_total_for_Name:
  "(ID e = None \<and> Name e = None \<and> PublicKey e = None \<and> KeyFingerprint e = None
     \<longrightarrow> TerraformLink e = Returns None)
   \<and> (TerraformLink e = Panics) = (Name e = None \<and> \<not> NoSSHKey e)
   \<and> (PublicKey e \<noteq> None \<and> Name e = None
     \<longrightarrow> TerraformLink e = Panics \<and> RenderTerraform t a e changes = Panics)
   \<and> (PublicKey e = None \<and> Name e = None \<and> (ID e \<noteq> None \<or> KeyFingerprint e \<noteq> None)
     \<longrightarrow> TerraformLink e = Panics)
   \<and> (RenderTerraform t a e changes = Panics) = (PublicKey e \<noteq> None \<and> Name e = None)
   \<and> (Name e \<noteq> None
     \<longrightarrow> TerraformLink e \<noteq> Panics \<and> RenderTerraform t a e changes \<noteq> Panics)"
  by (auto simp: RenderTerraform_def TerraformLink_def IsExistingKey_def NoSSHKey_def Let_def
      split: option.splits prod.splits)

theorem Terraform_total_for_Name_witness:
  "ID no_changes = None \<and> Name no_changes = None \<and> PublicKey no_changes = None
   \<and> KeyFingerprint no_changes = None
   \<and> TerraformLink no_changes = Returns None
   \<and> PublicKey (new_key\<lparr>Name := None\<rparr>) \<noteq> None \<and> Name (new_key\<lparr>Name := None\<rparr>) = None
   \<and> TerraformLink (new_key\<lparr>Name := None\<rparr>) = Panics
   \<and> RenderTerraform terraform_target None (new_key\<lparr>Name := None\<rparr>) no_changes = Panics
   \<and> PublicKey (no_changes\<lparr>ID := Some ''key-0a1b2c3d''\<rparr>) = None
   \<and> Name (no_changes\<lparr>ID := Some ''key-0a1b2c3d''\<rparr>) = None
   \<and> ID (no_changes\<lparr>ID := Some ''key-0a1b2c3d''\<rparr>) \<noteq> None
   \<and> TerraformLink (no_changes\<lparr>ID := Some ''key-0a1b2c3d''\<rparr>) = Panics
   \<and> Name new_key \<noteq> None
   \<and> TerraformLink new_key \<noteq> Panics
   \<and> RenderTerraform terraform_target None new_key no_changes \<noteq> Panics"
proof -
  let ?anon = "new_key\<lparr>Name := None\<rparr>"
  let ?id_only = "no_changes\<lparr>ID := Some ''key-0a1b2c3d''\<rparr>"
  note t = Terraform_total_for_Name [where t = terraform_target and a = None
      and changes = no_changes]
  have h1: "ID no_changes = None \<and> Name no_changes = None \<and> PublicKey no_changes = None
            \<and> KeyFingerprint no_changes = None"
    by (simp add: no_changes_def)
  note c1 = t [where e = no_changes, THEN conjunct1, THEN mp, OF h1]
  have h2: "PublicKey ?anon \<noteq> None \<and> Name ?anon = None"
    by (simp add: new_key_def)
  note c2 = t [where e = ?anon, THEN conjunct2, THEN conjunct2, THEN conjunct1, THEN mp, OF h2]
  have h3: "PublicKey ?id_only = None \<and> Name ?id_only = None
            \<and> (ID ?id_only \<noteq> None \<or> KeyFingerprint ?id_only \<noteq> None)"
    by (simp add: no_changes_def)
  note c3 = t [where e = ?id_only, THEN conjunct2, THEN conjunct2, THEN conjunct2, THEN conjunct1,
      THEN mp, OF h3]
  have h4: "Name new_key \<noteq> None"
    by (simp add: new_key_def)
  note c4 = t [where e = new_key, THEN conjunct2, THEN conjunct2, THEN conjunct2, THEN conjunct2,
      THEN conjunct2, THEN mp, OF h4]
  from h1 c1 h2 c2 h3 c3 h4 c4 show ?thesis by simp
qed

section \<open>Properties of the logrotate builder\<close>

lemma addLogRotate_default:
  "addLogRotate b c name path \<lparr>MaxSize = [], DateFormat = []\<rparr> =
     c @ [FileTask
           \<lparr>Path = ''/etc/logrotate.d/'' @ name,
            Contents = NewStringResource
              (concat (map (\<lambda>l. l @ ''\<newline>'')
                 ([path @ ''{'', ''  rotate 5'', ''  copytruncate'', ''  missingok'',
                   ''  notifempty'', ''  delaycompress'', ''  maxsize 100M'']
                  @ (if Distribution b = DistributionFlatcar
                     then [''  dateformat -%Y%m%d-%s''] else [])
                  @ [''  daily'', ''  create 0644 root root'', ''}'']))),
            Type = ''file'', Mode = Some ''0644''\<rparr>]"
  by (simp add: addLogRotate_def AddTask_def FileType_File_def Let_def)

lemma Build_general:
  "fst (Build UseCiliumEtcd Render InitDefaults b c) = None
   \<and> (\<exists>tasks. snd (Build UseCiliumEtcd Render InitDefaults b c) = c @ tasks)"
  by (cases "Distribution b")
     (simp_all add: Build_def addLogRotate_def addLogrotateService_def AddTask_def Let_def)

text \<open>
  C9. For every builder and build context, Build returns a nil error and only appends
  to the context; the tasks it appends depend on the distribution and the cluster
  configuration only (it has no backend to call):
  nothing on ContainerOS; on Flatcar one config file under \<open>/etc/logrotate.d\<close> for
  each kubernetes log, with the \<open>dateformat\<close> option, then \<open>logrotate.timer\<close>; on
  any other distribution the \<open>logrotate\<close> package, the config files without a
  \<open>dateformat\<close>, \<open>logrotate.service\<close> and \<open>logrotate.timer\<close>. The log
  \<open>etcd-cilium\<close> is included exactly when \<open>UseCiliumEtcd\<close> holds of the cluster.
\<close>

theorem Build_tasks:
  "fst (Build UseCiliumEtcd Render InitDefaults b c) = None
   \<and> (\<exists>tasks. snd (Build UseCiliumEtcd Render InitDefaults b c) = c @ tasks)
   \<and> Build UseCiliumEtcd Render InitDefaults \<lparr>Distribution = DistributionContainerOS, Cluster = cl\<rparr> c
     = (None, c)
   \<and> Build UseCiliumEtcd Render InitDefaults \<lparr>Distribution = DistributionFlatcar, Cluster = cl\<rparr> c
     = (None,
        c @ map (\<lambda>name. FileTask
                   \<lparr>Path = ''/etc/logrotate.d/'' @ name,
                    Contents = NewStringResource
                      (concat (map (\<lambda>l. l @ ''\<newline>'')
                         [''/var/log/'' @ name @ ''.log{'', ''  rotate 5'', ''  copytruncate'',
                          ''  missingok'', ''  notifempty'', ''  delaycompress'',
                          ''  maxsize 100M'', ''  dateformat -%Y%m%d-%s'', ''  daily'',
                          ''  create 0644 root root'', ''}''])),
                    Type = ''file'', Mode = Some ''0644''\<rparr>)
              ([''docker'', ''kube-addons'', ''kube-apiserver'', ''kube-controller-manager'',
                ''kube-proxy'', ''kube-scheduler'', ''kubelet'', ''etcd'', ''etcd-events'']
               @ (if UseCiliumEtcd cl then [''etcd-cilium''] else []))
          @ [ServiceTask (InitDefaults
               \<lparr>svc_Name = ''logrotate.timer'',
                svc_Definition = Some (Render [(''Unit'', ''Description'', ''Hourly Log Rotation''),
                                               (''Timer'', ''OnCalendar'', ''hourly'')])\<rparr>)])
   \<and> Build UseCiliumEtcd Render InitDefaults \<lparr>Distribution = DistributionOther d, Cluster = cl\<rparr> c
     = (None,
        c @ [PackageTask ''logrotate'']
          @ map (\<lambda>name. FileTask
                   \<lparr>Path = ''/etc/logrotate.d/'' @ name,
                    Contents = NewStringResource
                      (concat (map (\<lambda>l. l @ ''\<newline>'')
                         [''/var/log/'' @ name @ ''.log{'', ''  rotate 5'', ''  copytruncate'',
                          ''  missingok'', ''  notifempty'', ''  delaycompress'',
                          ''  maxsize 100M'', ''  daily'', ''  create 0644 root root'', ''}''])),
                    Type = ''file'', Mode = Some ''0644''\<rparr>)
              ([''docker'', ''kube-addons'', ''kube-apiserver'', ''kube-controller-manager'',
                ''kube-proxy'', ''kube-scheduler'', ''kubelet'', ''etcd'', ''etcd-events'']
               @ (if UseCiliumEtcd cl then [''etcd-cilium''] else []))
          @ [ServiceTask (InitDefaults
               \<lparr>svc_Name = ''logrotate.service'',
                svc_Definition = Some (Render [(''Unit'', ''Description'',
                                                ''Rotate and Compress System Logs''),
                                               (''Service'', ''ExecStart'',
                                                ''/usr/sbin/logrotate /etc/logrotate.conf'')])\<rparr>),
             ServiceTask (InitDefaults
               \<lparr>svc_Name = ''logrotate.timer'',
                svc_Definition = Some (Render [(''Unit'', ''Description'', ''Hourly Log Rotation''),
                                               (''Timer'', ''OnCalendar'', ''hourly'')])\<rparr>)])"
  using Build_general [of UseCiliumEtcd Render InitDefaults b c]
  by (intro conjI)
    (simp_all add: Build_def addLogRotate_default addLogrotateService_def AddTask_def
      Manifest_Set_def Let_def)

end
